theory Spec2Isabelle
  imports Complex_Main "HOL-Library.Signed_Division"
begin

section \<open>Number model\<close>


definition FLT_EPSILON :: real where
  \<comment> \<open>Modelled from the spec: the constant of float.h, absent from the repository
      (the gap between 1 and the next binary32 value).\<close>
  "FLT_EPSILON = 1 / 2 ^ 23"

section \<open>Vectors\<close>

subsection \<open>class vec2\<close>

record vec2 =
  x :: real
  y :: real

definition vec2 :: "real \<Rightarrow> real \<Rightarrow> vec2" where
  "vec2 a b = \<lparr>x = a, y = b\<rparr>"



definition vec2_add :: "vec2 \<Rightarrow> vec2 \<Rightarrow> vec2" where
  "vec2_add a v = vec2 (vec2.x a + vec2.x v) (vec2.y a + vec2.y v)"


definition vec2_scale :: "vec2 \<Rightarrow> real \<Rightarrow> vec2" where
  "vec2_scale a s = vec2 (s * vec2.x a) (s * vec2.y a)"

definition vec2_mul :: "vec2 \<Rightarrow> vec2 \<Rightarrow> vec2" where
  "vec2_mul a v = vec2 (vec2.x a * vec2.x v) (vec2.y a * vec2.y v)"




subsection \<open>class vec3\<close>

record vec3 =
  x :: real
  y :: real
  z :: real

definition vec3 :: "real \<Rightarrow> real \<Rightarrow> real \<Rightarrow> vec3" where
  "vec3 a b c = \<lparr>x = a, y = b, z = c\<rparr>"


definition vec3_at :: "vec3 \<Rightarrow> nat \<Rightarrow> real" where
  \<comment> \<open>\<^verbatim>\<open>operator [] (int i) { return *(&x+i); }\<close>; an index outside 0..2 is undefined
      behaviour and left unspecified.\<close>
  "vec3_at v i = (if i = 0 then vec3.x v else if i = 1 then vec3.y v
                  else if i = 2 then vec3.z v else undefined)"


definition vec3_add :: "vec3 \<Rightarrow> vec3 \<Rightarrow> vec3" where
  "vec3_add a v = vec3 (vec3.x a + vec3.x v) (vec3.y a + vec3.y v) (vec3.z a + vec3.z v)"


definition vec3_scale :: "vec3 \<Rightarrow> real \<Rightarrow> vec3" where
  "vec3_scale a s = vec3 (s * vec3.x a) (s * vec3.y a) (s * vec3.z a)"

definition vec3_mul :: "vec3 \<Rightarrow> vec3 \<Rightarrow> vec3" where
  "vec3_mul a v = vec3 (vec3.x a * vec3.x v) (vec3.y a * vec3.y v) (vec3.z a * vec3.z v)"

definition dot3 :: "vec3 \<Rightarrow> vec3 \<Rightarrow> real" where
  "dot3 a b = vec3.x a * vec3.x b + vec3.y a * vec3.y b + vec3.z a * vec3.z b"

definition length3 :: "vec3 \<Rightarrow> real" where
  \<comment> \<open>\<^verbatim>\<open>inline float length(const vec3 &v) { return sqrt(dot(v,v)); }\<close>\<close>
  "length3 v = sqrt (dot3 v v)"




subsection \<open>class vec4\<close>

record vec4 =
  x :: real
  y :: real
  z :: real
  w :: real

definition vec4 :: "real \<Rightarrow> real \<Rightarrow> real \<Rightarrow> real \<Rightarrow> vec4" where
  "vec4 a b c d = \<lparr>x = a, y = b, z = c, w = d\<rparr>"

definition vec4_splat :: "real \<Rightarrow> vec4" where
  "vec4_splat s = vec4 s s s s"

definition vec4_at :: "vec4 \<Rightarrow> nat \<Rightarrow> real" where
  \<comment> \<open>\<^verbatim>\<open>operator [] (int i) { return *(&x+i); }\<close>; an index outside 0..3 is undefined
      behaviour and left unspecified.\<close>
  "vec4_at v i = (if i = 0 then vec4.x v else if i = 1 then vec4.y v
                  else if i = 2 then vec4.z v else if i = 3 then vec4.w v else undefined)"

definition vec4_neg :: "vec4 \<Rightarrow> vec4" where
  "vec4_neg v = vec4 (- vec4.x v) (- vec4.y v) (- vec4.z v) (- vec4.w v)"

definition vec4_add :: "vec4 \<Rightarrow> vec4 \<Rightarrow> vec4" where
  "vec4_add a v = vec4 (vec4.x a + vec4.x v) (vec4.y a + vec4.y v)
                       (vec4.z a + vec4.z v) (vec4.w a + vec4.w v)"

definition vec4_sub :: "vec4 \<Rightarrow> vec4 \<Rightarrow> vec4" where
  "vec4_sub a v = vec4 (vec4.x a - vec4.x v) (vec4.y a - vec4.y v)
                       (vec4.z a - vec4.z v) (vec4.w a - vec4.w v)"

definition vec4_scale :: "vec4 \<Rightarrow> real \<Rightarrow> vec4" where
  "vec4_scale a s = vec4 (s * vec4.x a) (s * vec4.y a) (s * vec4.z a) (s * vec4.w a)"

definition vec4_mul :: "vec4 \<Rightarrow> vec4 \<Rightarrow> vec4" where
  \<comment> \<open>\<^verbatim>\<open>vec4 operator * (const vec4 &v) const { return vec4(x*v.x, y*v.y, z*v.z, w*v.z); }\<close>\<close>
  "vec4_mul a v = vec4 (vec4.x a * vec4.x v) (vec4.y a * vec4.y v)
                       (vec4.z a * vec4.z v) (vec4.w a * vec4.z v)"

definition vec4_mul_assign :: "vec4 \<Rightarrow> vec4 \<Rightarrow> vec4" where
  \<comment> \<open>\<^verbatim>\<open>operator *= (const vec4 &v) { x *= v.x, y *= v.y, z *= v.z, w *= v.w; return *this; }\<close>\<close>
  "vec4_mul_assign a v = vec4 (vec4.x a * vec4.x v) (vec4.y a * vec4.y v)
                              (vec4.z a * vec4.z v) (vec4.w a * vec4.w v)"

definition dot4 :: "vec4 \<Rightarrow> vec4 \<Rightarrow> real" where
  "dot4 a b = vec4.x a * vec4.x b + vec4.y a * vec4.y b + vec4.z a * vec4.z b
              + vec4.w a * vec4.w b"

subsection \<open>Integer vectors\<close>

text \<open>
  \<^verbatim>\<open>inline int Flint(float x) { return (int) floor(x); }\<close>. The conversion to \<^verbatim>\<open>int\<close> of a
  value outside the range of a 32-bit \<^verbatim>\<open>int\<close> is undefined behaviour; the model
  returns \<open>None\<close> there.
\<close>

definition Flint :: "real \<Rightarrow> int option" where
  "Flint v = (let f = \<lfloor>v\<rfloor> in if - (2 ^ 31) \<le> f \<and> f < 2 ^ 31 then Some f else None)"

definition int_range :: "real \<Rightarrow> bool" where
  \<comment> \<open>the values whose floor a 32-bit \<^verbatim>\<open>int\<close> holds\<close>
  "int_range v \<longleftrightarrow> - (2 ^ 31) \<le> v \<and> v < 2 ^ 31"

record int2 =
  i1 :: int
  i2 :: int

definition int2 :: "int \<Rightarrow> int \<Rightarrow> int2" where
  "int2 a b = \<lparr>i1 = a, i2 = b\<rparr>"

definition int2_of_vec2 :: "vec2 \<Rightarrow> int2 option" where
  \<comment> \<open>\<^verbatim>\<open>int2(vec2 v) : i1(Flint(v.x)), i2(Flint(v.y))\<close>\<close>
  "int2_of_vec2 v =
     (case Flint (vec2.x v) of None \<Rightarrow> None | Some a \<Rightarrow>
       (case Flint (vec2.y v) of None \<Rightarrow> None | Some b \<Rightarrow> Some (int2 a b)))"

record int3 =
  i1 :: int
  i2 :: int
  i3 :: int

definition int3 :: "int \<Rightarrow> int \<Rightarrow> int \<Rightarrow> int3" where
  "int3 a b c = \<lparr>i1 = a, i2 = b, i3 = c\<rparr>"

definition int3_of_vec3 :: "vec3 \<Rightarrow> int3 option" where
  \<comment> \<open>\<^verbatim>\<open>int3(vec3 v) : i1(Flint(v.x)), i2(Flint(v.y)), i3(Flint(v.z))\<close>\<close>
  "int3_of_vec3 v =
     (case Flint (vec3.x v) of None \<Rightarrow> None | Some a \<Rightarrow>
       (case Flint (vec3.y v) of None \<Rightarrow> None | Some b \<Rightarrow>
         (case Flint (vec3.z v) of None \<Rightarrow> None | Some c \<Rightarrow> Some (int3 a b c))))"

record int4 =
  i1 :: int
  i2 :: int
  i3 :: int
  i4 :: int

definition int4 :: "int \<Rightarrow> int \<Rightarrow> int \<Rightarrow> int \<Rightarrow> int4" where
  "int4 a b c d = \<lparr>i1 = a, i2 = b, i3 = c, i4 = d\<rparr>"

definition int4_of_vec4 :: "vec4 \<Rightarrow> int4 option" where
  \<comment> \<open>\<^verbatim>\<open>int4(vec4 v) : i1(Flint(v.x)), i2(Flint(v.y)), i3(Flint(v.z)), i4(Flint(v.w))\<close>\<close>
  "int4_of_vec4 v =
     (case Flint (vec4.x v) of None \<Rightarrow> None | Some a \<Rightarrow>
       (case Flint (vec4.y v) of None \<Rightarrow> None | Some b \<Rightarrow>
         (case Flint (vec4.z v) of None \<Rightarrow> None | Some c \<Rightarrow>
           (case Flint (vec4.w v) of None \<Rightarrow> None | Some d \<Rightarrow> Some (int4 a b c d)))))"

section \<open>Matrices\<close>

subsection \<open>class mat3\<close>

text \<open>
  \<^verbatim>\<open>class mat3 { vec3 row[3]; ... }\<close>: three rows; \<open>m[i]\<close> is row \<open>i\<close> and \<open>m[i][j]\<close> the
  element in row \<open>i\<close>, column \<open>j\<close>. The constructor of the datatype is
  \<^verbatim>\<open>mat3(const vec3 &r0, const vec3 &r1, const vec3 &r2)\<close>.
\<close>

datatype mat3 = mat3 vec3 vec3 vec3

definition mat3_diag :: "real \<Rightarrow> mat3" where
  \<comment> \<open>\<^verbatim>\<open>mat3(float diag = 1) { row[0].x = row[1].y = row[2].z = diag; }\<close>, the rows
      default-constructed to zero\<close>
  "mat3_diag d = mat3 (vec3 d 0 0) (vec3 0 d 0) (vec3 0 0 d)"

fun mat3_row :: "mat3 \<Rightarrow> nat \<Rightarrow> vec3" where
  "mat3_row (mat3 r0 r1 r2) i = (if i = 0 then r0 else if i = 1 then r1
                                else if i = 2 then r2 else undefined)"

definition mat3_at :: "mat3 \<Rightarrow> nat \<Rightarrow> nat \<Rightarrow> real" where
  "mat3_at m i j = vec3_at (mat3_row m i) j"

definition vec3_set :: "vec3 \<Rightarrow> nat \<Rightarrow> real \<Rightarrow> vec3" where
  \<comment> \<open>an assignment through \<^verbatim>\<open>float &operator [] (int i)\<close>\<close>
  "vec3_set v j s = (if j = 0 then v\<lparr>vec3.x := s\<rparr> else if j = 1 then v\<lparr>vec3.y := s\<rparr>
                     else if j = 2 then v\<lparr>vec3.z := s\<rparr> else undefined)"

fun mat3_set :: "mat3 \<Rightarrow> nat \<Rightarrow> nat \<Rightarrow> real \<Rightarrow> mat3" where
  \<comment> \<open>the assignment \<^verbatim>\<open>m[i][j] = s\<close>\<close>
  "mat3_set (mat3 r0 r1 r2) i j s =
     (if i = 0 then mat3 (vec3_set r0 j s) r1 r2
      else if i = 1 then mat3 r0 (vec3_set r1 j s) r2
      else if i = 2 then mat3 r0 r1 (vec3_set r2 j s) else undefined)"

definition Transpose3 :: "mat3 \<Rightarrow> mat3" where
  \<comment> \<open>\<^verbatim>\<open>mat3 Transpose(mat3 m)\<close>\<close>
  "Transpose3 m =
     mat3 (vec3 (mat3_at m 0 0) (mat3_at m 1 0) (mat3_at m 2 0))
          (vec3 (mat3_at m 0 1) (mat3_at m 1 1) (mat3_at m 2 1))
          (vec3 (mat3_at m 0 2) (mat3_at m 1 2) (mat3_at m 2 2))"

definition Adjoint3x3 :: "mat3 \<Rightarrow> mat3" where
  "Adjoint3x3 inp =
     (let out = mat3_diag 1;
          out = mat3_set out 0 0 (mat3_at inp 1 1 * mat3_at inp 2 2 - mat3_at inp 1 2 * mat3_at inp 2 1);
          out = mat3_set out 1 0 (- (mat3_at inp 1 0 * mat3_at inp 2 2 - mat3_at inp 1 2 * mat3_at inp 2 0));
          out = mat3_set out 2 0 (mat3_at inp 1 0 * mat3_at inp 2 1 - mat3_at inp 1 1 * mat3_at inp 2 0);
          out = mat3_set out 0 1 (- (mat3_at inp 0 1 * mat3_at inp 2 2 - mat3_at inp 0 2 * mat3_at inp 2 1));
          out = mat3_set out 1 1 (mat3_at inp 0 0 * mat3_at inp 2 2 - mat3_at inp 0 2 * mat3_at inp 2 0);
          out = mat3_set out 2 1 (- (mat3_at inp 0 0 * mat3_at inp 2 1 - mat3_at inp 0 1 * mat3_at inp 2 0));
          out = mat3_set out 0 2 (mat3_at inp 0 1 * mat3_at inp 1 2 - mat3_at inp 0 2 * mat3_at inp 1 1);
          out = mat3_set out 1 2 (- (mat3_at inp 0 0 * mat3_at inp 1 2 - mat3_at inp 0 2 * mat3_at inp 1 0));
          out = mat3_set out 2 2 (mat3_at inp 0 0 * mat3_at inp 1 1 - mat3_at inp 0 1 * mat3_at inp 1 0)
      in out)"


definition mat3_scale :: "mat3 \<Rightarrow> real \<Rightarrow> mat3" where
  \<comment> \<open>\<^verbatim>\<open>mat3 operator * (float s) const { return mat3(s*row[0], s*row[1], s*row[2]); }\<close>\<close>
  "mat3_scale m s = mat3 (vec3_scale (mat3_row m 0) s) (vec3_scale (mat3_row m 1) s)
                         (vec3_scale (mat3_row m 2) s)"

text \<open>
  \<^verbatim>\<open>mat3 operator * (const mat3 &m) const\<close>: three nested loops over \<open>a = mat3(0)\<close> with
  the body \<open>a[i][j] += row[i][k]*m[k][j]\<close>; one function for the body and one for each
  loop, the matrix \<open>a\<close> passed through.
\<close>

definition mat3_mul_body :: "mat3 \<Rightarrow> mat3 \<Rightarrow> nat \<Rightarrow> nat \<Rightarrow> nat \<Rightarrow> mat3 \<Rightarrow> mat3" where
  "mat3_mul_body this m i j k a = mat3_set a i j (mat3_at a i j + mat3_at this i k * mat3_at m k j)"

definition mat3_mul_k :: "mat3 \<Rightarrow> mat3 \<Rightarrow> nat \<Rightarrow> nat \<Rightarrow> mat3 \<Rightarrow> mat3" where
  "mat3_mul_k this m i j a = fold (mat3_mul_body this m i j) [0..<3] a"

definition mat3_mul_j :: "mat3 \<Rightarrow> mat3 \<Rightarrow> nat \<Rightarrow> mat3 \<Rightarrow> mat3" where
  "mat3_mul_j this m i a = fold (mat3_mul_k this m i) [0..<3] a"

definition mat3_mul :: "mat3 \<Rightarrow> mat3 \<Rightarrow> mat3" where
  "mat3_mul this m = fold (mat3_mul_j this m) [0..<3] (mat3_diag 0)"

definition det3 :: "mat3 \<Rightarrow> real" where
  \<comment> \<open>the determinant, by the rule of Sarrus (the reference the claims speak of, not
      a function of the source)\<close>
  "det3 m =
     mat3_at m 0 0 * mat3_at m 1 1 * mat3_at m 2 2 + mat3_at m 0 1 * mat3_at m 1 2 * mat3_at m 2 0
     + mat3_at m 0 2 * mat3_at m 1 0 * mat3_at m 2 1 - mat3_at m 0 2 * mat3_at m 1 1 * mat3_at m 2 0
     - mat3_at m 0 1 * mat3_at m 1 0 * mat3_at m 2 2 - mat3_at m 0 0 * mat3_at m 1 2 * mat3_at m 2 1"

subsection \<open>class mat4\<close>

datatype mat4 = mat4 vec4 vec4 vec4 vec4

definition mat4_diag :: "real \<Rightarrow> mat4" where
  \<comment> \<open>\<^verbatim>\<open>mat4(float diag = 1) { row[0].x = row[1].y = row[2].z = row[3].w = diag; }\<close>, the
      rows default-constructed to zero\<close>
  "mat4_diag d = mat4 (vec4 d 0 0 0) (vec4 0 d 0 0) (vec4 0 0 d 0) (vec4 0 0 0 d)"

fun mat4_row :: "mat4 \<Rightarrow> nat \<Rightarrow> vec4" where
  "mat4_row (mat4 r0 r1 r2 r3) i = (if i = 0 then r0 else if i = 1 then r1
                                   else if i = 2 then r2 else if i = 3 then r3 else undefined)"

definition mat4_at :: "mat4 \<Rightarrow> nat \<Rightarrow> nat \<Rightarrow> real" where
  "mat4_at m i j = vec4_at (mat4_row m i) j"

definition vec4_set :: "vec4 \<Rightarrow> nat \<Rightarrow> real \<Rightarrow> vec4" where
  "vec4_set v j s = (if j = 0 then v\<lparr>vec4.x := s\<rparr> else if j = 1 then v\<lparr>vec4.y := s\<rparr>
                     else if j = 2 then v\<lparr>vec4.z := s\<rparr> else if j = 3 then v\<lparr>vec4.w := s\<rparr>
                     else undefined)"

fun mat4_set :: "mat4 \<Rightarrow> nat \<Rightarrow> nat \<Rightarrow> real \<Rightarrow> mat4" where
  "mat4_set (mat4 r0 r1 r2 r3) i j s =
     (if i = 0 then mat4 (vec4_set r0 j s) r1 r2 r3
      else if i = 1 then mat4 r0 (vec4_set r1 j s) r2 r3
      else if i = 2 then mat4 r0 r1 (vec4_set r2 j s) r3
      else if i = 3 then mat4 r0 r1 r2 (vec4_set r3 j s) else undefined)"





definition mat4_of_mat3 :: "mat3 \<Rightarrow> mat4" where
  \<comment> \<open>\<^verbatim>\<open>mat4(const mat3 &m)\<close>: the rows are default-constructed to zero, the loops copy the
      nine elements, then \<open>row[3][3] = 1\<close>\<close>
  "mat4_of_mat3 m =
     (let a = mat4 (vec4_splat 0) (vec4_splat 0) (vec4_splat 0) (vec4_splat 0);
          a = fold (\<lambda>i a. fold (\<lambda>j a. mat4_set a i j (mat3_at m i j)) [0..<3] a) [0..<3] a
      in mat4_set a 3 3 1)"

definition mat4_mul_vec :: "mat4 \<Rightarrow> vec4 \<Rightarrow> vec4" where
  \<comment> \<open>\<^verbatim>\<open>vec4 operator * (const vec4 &v) const\<close>\<close>
  "mat4_mul_vec m v = vec4 (dot4 (mat4_row m 0) v) (dot4 (mat4_row m 1) v)
                           (dot4 (mat4_row m 2) v) (dot4 (mat4_row m 3) v)"

definition Orthographic :: "real \<Rightarrow> real \<Rightarrow> real \<Rightarrow> real \<Rightarrow> real \<Rightarrow> real \<Rightarrow> mat4" where
  "Orthographic left right bottom top' zNear zFar =
     (let c = mat4_diag 1;
          c = mat4_set c 0 0 (2 / (right - left));
          c = mat4_set c 1 1 (2 / (top' - bottom));
          c = mat4_set c 2 2 (2 / (zNear - zFar));
          c = mat4_set c 3 3 1;
          c = mat4_set c 0 3 (- (right + left) / (right - left));
          c = mat4_set c 1 3 (- (top' + bottom) / (top' - bottom));
          c = mat4_set c 2 3 (- (zFar + zNear) / (zFar - zNear))
      in c)"











section \<open>Quaternions\<close>

text \<open>\<^verbatim>\<open>const int X = 0, Y = 1, Z = 2;\<close>\<close>

definition X :: nat where "X = 0"
definition Y :: nat where "Y = 1"
definition Z :: nat where "Z = 2"

record Quaternion =
  x :: real
  y :: real
  z :: real
  w :: real

definition Quaternion :: "real \<Rightarrow> real \<Rightarrow> real \<Rightarrow> real \<Rightarrow> Quaternion" where
  \<comment> \<open>\<^verbatim>\<open>Quaternion(float x, float y, float z, float w)\<close>\<close>
  "Quaternion a b c d = \<lparr>x = a, y = b, z = c, w = d\<rparr>"


text \<open>
  \<^verbatim>\<open>caseMacro(i, j, k, I, J, K)\<close>, the body of one case of the switch in
  \<^verbatim>\<open>Quaternion(mat3 mat)\<close>: the values it assigns to the members \<open>i\<close>, \<open>j\<close>, \<open>k\<close> and \<open>w\<close>,
  in this order.
\<close>

definition caseMacro :: "mat3 \<Rightarrow> nat \<Rightarrow> nat \<Rightarrow> nat \<Rightarrow> real \<times> real \<times> real \<times> real" where
  "caseMacro mat I J K =
     (let i = sqrt (0.25 * (mat3_at mat I I - mat3_at mat J J - mat3_at mat K K + 1));
          s = 0.25 / i;
          j = (mat3_at mat I J + mat3_at mat J I) * s;
          k = (mat3_at mat K I + mat3_at mat I K) * s;
          qw = (mat3_at mat K J - mat3_at mat J K) * s
      in (i, j, k, qw))"

definition Quaternion_of_mat3 :: "mat3 \<Rightarrow> Quaternion" where
  \<comment> \<open>\<^verbatim>\<open>Quaternion(mat3 mat)\<close>\<close>
  "Quaternion_of_mat3 mat =
     (let tr = mat3_at mat X X + mat3_at mat Y Y + mat3_at mat Z Z in
      if tr \<ge> 0 then
        (let qw = sqrt (0.25 * (tr + 1));
             s = 0.25 / qw;
             qx = (mat3_at mat Z Y - mat3_at mat Y Z) * s;
             qy = (mat3_at mat X Z - mat3_at mat Z X) * s;
             qz = (mat3_at mat Y X - mat3_at mat X Y) * s
         in Quaternion qx qy qz qw)
      else
        (let sel = (if mat3_at mat X X \<ge> mat3_at mat Y Y
                    then (if mat3_at mat X X \<ge> mat3_at mat Z Z then X else Z)
                    else (if mat3_at mat Y Y \<ge> mat3_at mat Z Z then Y else Z))
         in if sel = X then (case caseMacro mat X Y Z of (qx, qy, qz, qw) \<Rightarrow> Quaternion qx qy qz qw)
            else if sel = Y then (case caseMacro mat Y Z X of (qy, qz, qx, qw) \<Rightarrow> Quaternion qx qy qz qw)
            else (case caseMacro mat Z X Y of (qz, qx, qy, qw) \<Rightarrow> Quaternion qx qy qz qw)))"

definition Quaternion_of_mat4 :: "mat4 \<Rightarrow> Quaternion" where
  \<comment> \<open>\<^verbatim>\<open>Quaternion(mat4 m)\<close>: the transposed upper 3x3 block, its columns divided by the
      lengths of the columns of \<open>m\<close>, handed to \<^verbatim>\<open>Quaternion(mat3)\<close>\<close>
  "Quaternion_of_mat4 m =
     (let t = mat3 (vec3 (mat4_at m 0 0) (mat4_at m 1 0) (mat4_at m 2 0))
                   (vec3 (mat4_at m 0 1) (mat4_at m 1 1) (mat4_at m 2 1))
                   (vec3 (mat4_at m 0 2) (mat4_at m 1 2) (mat4_at m 2 2));
          xlen = length3 (vec3 (mat4_at m 0 0) (mat4_at m 1 0) (mat4_at m 2 0));
          ylen = length3 (vec3 (mat4_at m 0 1) (mat4_at m 1 1) (mat4_at m 2 1));
          zlen = length3 (vec3 (mat4_at m 0 2) (mat4_at m 1 2) (mat4_at m 2 2));
          t = fold (\<lambda>i t. mat3_set t i 0 (mat3_at t i 0 / xlen)) [0..<3] t;
          t = fold (\<lambda>i t. mat3_set t i 1 (mat3_at t i 1 / ylen)) [0..<3] t;
          t = fold (\<lambda>i t. mat3_set t i 2 (mat3_at t i 2 / zlen)) [0..<3] t
      in Quaternion_of_mat3 t)"



definition Norm :: "Quaternion \<Rightarrow> real" where
  "Norm q = Quaternion.x q * Quaternion.x q + Quaternion.y q * Quaternion.y q
            + Quaternion.z q * Quaternion.z q + Quaternion.w q * Quaternion.w q"

definition Get3x3 :: "Quaternion \<Rightarrow> mat3" where
  "Get3x3 q =
     (let norm = Norm q in
      if \<bar>norm\<bar> < FLT_EPSILON then mat3 (vec3 1 0 0) (vec3 0 1 0) (vec3 0 0 1)
      else
        (let s = 2 / norm;
             xs = Quaternion.x q * s; ys = Quaternion.y q * s; zs = Quaternion.z q * s;
             wx = Quaternion.w q * xs; wy = Quaternion.w q * ys; wz = Quaternion.w q * zs;
             xx = Quaternion.x q * xs; xy = Quaternion.x q * ys; xz = Quaternion.x q * zs;
             yy = Quaternion.y q * ys; yz = Quaternion.y q * zs; zz = Quaternion.z q * zs
         in mat3 (vec3 (1 - (yy + zz)) (xy + wz) (xz - wy))
                 (vec3 (xy - wz) (1 - (xx + zz)) (yz + wx))
                 (vec3 (xz + wy) (yz - wx) (1 - (xx + yy)))))"

definition GetMatrix :: "Quaternion \<Rightarrow> mat4" where
  \<comment> \<open>\<^verbatim>\<open>mat4 GetMatrix() { mat3 m3 = Get3x3(); return mat4(m3); }\<close>\<close>
  "GetMatrix q = mat4_of_mat3 (Get3x3 q)"



definition pure_rotation :: "mat3 \<Rightarrow> bool" where
  \<comment> \<open>orthonormal rows and determinant 1 (the matrices the claims call pure rotations,
      not a function of the source)\<close>
  "pure_rotation R \<longleftrightarrow> mat3_mul R (Transpose3 R) = mat3_diag 1 \<and> det3 R = 1"



section \<open>Properties of the vector classes\<close>

lemma vec2_sel [simp]: "vec2.x (vec2 a b) = a" "vec2.y (vec2 a b) = b"
  by (simp_all add: vec2_def)

lemma vec2_eq_iff [simp]: "vec2 a b = vec2 a' b' \<longleftrightarrow> a = a' \<and> b = b'"
  by (simp add: vec2_def)

lemma vec3_sel [simp]: "vec3.x (vec3 a b c) = a" "vec3.y (vec3 a b c) = b" "vec3.z (vec3 a b c) = c"
  by (simp_all add: vec3_def)

lemma vec3_eq_iff [simp]: "vec3 a b c = vec3 a' b' c' \<longleftrightarrow> a = a' \<and> b = b' \<and> c = c'"
  by (simp add: vec3_def)

lemma vec2_eta: "vec2 (vec2.x v) (vec2.y v) = v"
  by (simp add: vec2_def)

lemma vec3_eta: "vec3 (vec3.x v) (vec3.y v) (vec3.z v) = v"
  by (simp add: vec3_def)

lemma vec4_sel [simp]:
  "vec4.x (vec4 a b c d) = a" "vec4.y (vec4 a b c d) = b"
  "vec4.z (vec4 a b c d) = c" "vec4.w (vec4 a b c d) = d"
  by (simp_all add: vec4_def)

lemma vec4_eq_iff [simp]:
  "vec4 a b c d = vec4 a' b' c' d' \<longleftrightarrow> a = a' \<and> b = b' \<and> c = c' \<and> d = d'"
  by (simp add: vec4_def)


subsection \<open>Bounds\<close>





lemma Min_insert_bound:
  fixes S :: "real set"
  assumes "finite S" "S \<noteq> {}" "\<forall>s\<in>S. s \<le> a"
  shows "Min (insert a S) = Min S"
  using assms by (simp add: min_absorb2)

lemma Max_insert_bound:
  fixes S :: "real set"
  assumes "finite S" "S \<noteq> {}" "\<forall>s\<in>S. a \<le> s"
  shows "Max (insert a S) = Max S"
  using assms by (simp add: max_absorb2)













subsection \<open>Conversion to integer vectors\<close>

lemma Flint_in_range: "int_range v \<Longrightarrow> Flint v = Some \<lfloor>v\<rfloor>"
proof -
  assume r: "int_range v"
  have lo: "- (2 ^ 31) \<le> \<lfloor>v\<rfloor>"
  proof -
    have "real_of_int (- (2 ^ 31)) \<le> v" using r by (simp add: int_range_def)
    then show ?thesis by (simp only: le_floor_iff)
  qed
  have hi: "\<lfloor>v\<rfloor> < 2 ^ 31"
  proof -
    have "v < real_of_int (2 ^ 31)" using r by (simp add: int_range_def)
    then show ?thesis by (simp only: floor_less_iff)
  qed
  show ?thesis using lo hi by (simp add: Flint_def Let_def)
qed

text \<open>
  C9. The conversion of a float vector to the integer vector of the same dimension
  takes the floor of each component (the greatest integer not above it), wherever the
  conversion to \<^verbatim>\<open>int\<close> is defined; a component \<open>-1.5\<close> becomes \<open>-2\<close>.
\<close>

theorem vec_to_int_is_floor:
  "(int_range (vec2.x v2) \<and> int_range (vec2.y v2) \<longrightarrow>
      int2_of_vec2 v2 = Some (int2 \<lfloor>vec2.x v2\<rfloor> \<lfloor>vec2.y v2\<rfloor>))
   \<and> (int_range (vec3.x v3) \<and> int_range (vec3.y v3) \<and> int_range (vec3.z v3) \<longrightarrow>
      int3_of_vec3 v3 = Some (int3 \<lfloor>vec3.x v3\<rfloor> \<lfloor>vec3.y v3\<rfloor> \<lfloor>vec3.z v3\<rfloor>))
   \<and> (int_range (vec4.x v4) \<and> int_range (vec4.y v4) \<and> int_range (vec4.z v4)
        \<and> int_range (vec4.w v4) \<longrightarrow>
      int4_of_vec4 v4 =
        Some (int4 \<lfloor>vec4.x v4\<rfloor> \<lfloor>vec4.y v4\<rfloor> \<lfloor>vec4.z v4\<rfloor> \<lfloor>vec4.w v4\<rfloor>))
   \<and> Flint (- 3 / 2) = Some (- 2)"
proof -
  have "int_range (- 3 / 2)" by (simp add: int_range_def)
  then have "Flint (- 3 / 2) = Some \<lfloor>- 3 / 2 :: real\<rfloor>" by (rule Flint_in_range)
  moreover have "\<lfloor>- 3 / 2 :: real\<rfloor> = - 2" by (simp add: floor_eq_iff)
  ultimately show ?thesis
    by (simp add: int2_of_vec2_def int3_of_vec3_def int4_of_vec4_def Flint_in_range)
qed

theorem vec_to_int_is_floor_witness:
  "int_range (- 3 / 2) \<and> int_range (5 / 2) \<and> int_range 7 \<and> int_range (- 1 / 4)
   \<and> int2_of_vec2 (vec2 (- 3 / 2) (5 / 2)) = Some (int2 (- 2) 2)
   \<and> int3_of_vec3 (vec3 (- 3 / 2) (5 / 2) 7) = Some (int3 (- 2) 2 7)
   \<and> int4_of_vec4 (vec4 (- 3 / 2) (5 / 2) 7 (- 1 / 4)) = Some (int4 (- 2) 2 7 (- 1))"
proof -
  have r: "int_range (- 3 / 2)" "int_range (5 / 2)" "int_range 7" "int_range (- 1 / 4)"
    by (simp_all add: int_range_def)
  have f: "\<lfloor>- 3 / 2 :: real\<rfloor> = - 2" "\<lfloor>5 / 2 :: real\<rfloor> = 2" "\<lfloor>7 :: real\<rfloor> = 7"
    "\<lfloor>- 1 / 4 :: real\<rfloor> = - 1"
    by (simp_all add: floor_eq_iff)
  show ?thesis
    using r f
      vec_to_int_is_floor [of "vec2 (- 3 / 2) (5 / 2)" "vec3 (- 3 / 2) (5 / 2) 7"
        "vec4 (- 3 / 2) (5 / 2) 7 (- 1 / 4)"]
    by simp
qed

subsection \<open>The product of two vec4 values\<close>

text \<open>
  C1 (as the code has it). The product of two \<open>vec4\<close> values multiplies the first three
  components pairwise, but its fourth component is \<open>a.w * b.z\<close>: at \<open>a = (1,1,1,1)\<close> and
  \<open>b = (1,1,1,2)\<close> the result is \<open>(1,1,1,1)\<close>, where the componentwise product, which
  \<open>operator *=\<close> computes, is \<open>(1,1,1,2)\<close>.
\<close>

theorem vec4_mul_w_uses_z:
  "vec4_mul (vec4 1 1 1 1) (vec4 1 1 1 2) = vec4 1 1 1 1
   \<and> vec4.w (vec4_mul (vec4 1 1 1 1) (vec4 1 1 1 2)) \<noteq> vec4.w (vec4 1 1 1 1) * vec4.w (vec4 1 1 1 2)
   \<and> vec4_mul_assign (vec4 1 1 1 1) (vec4 1 1 1 2) = vec4 1 1 1 2"
  by (simp add: vec4_mul_def vec4_mul_assign_def)

section \<open>Properties of the 4x4 matrices\<close>

subsection \<open>Evaluating the 4x4 matrix operations\<close>

lemma upt3: "[0..<3] = [0, 1, 2]"
  by (simp add: upt_rec)






lemma mat4_at_rows [simp]:
  "mat4_at (mat4 r0 r1 r2 r3) 0 j = vec4_at r0 j" "mat4_at (mat4 r0 r1 r2 r3) 1 j = vec4_at r1 j"
  "mat4_at (mat4 r0 r1 r2 r3) (Suc 0) j = vec4_at r1 j"
  "mat4_at (mat4 r0 r1 r2 r3) 2 j = vec4_at r2 j" "mat4_at (mat4 r0 r1 r2 r3) 3 j = vec4_at r3 j"
  by (simp_all add: mat4_at_def)

lemma vec4_at_cols [simp]:
  "vec4_at (vec4 a b c d) 0 = a" "vec4_at (vec4 a b c d) 1 = b"
  "vec4_at (vec4 a b c d) (Suc 0) = b"
  "vec4_at (vec4 a b c d) 2 = c" "vec4_at (vec4 a b c d) 3 = d"
  by (simp_all add: vec4_at_def)

lemma vec4_set_cols [simp]:
  "vec4_set (vec4 a b c d) 0 s = vec4 s b c d" "vec4_set (vec4 a b c d) 1 s = vec4 a s c d"
  "vec4_set (vec4 a b c d) (Suc 0) s = vec4 a s c d"
  "vec4_set (vec4 a b c d) 2 s = vec4 a b s d" "vec4_set (vec4 a b c d) 3 s = vec4 a b c s"
  by (simp_all add: vec4_set_def vec4_def)

lemma mat4_set_rows [simp]:
  "mat4_set (mat4 r0 r1 r2 r3) 0 j s = mat4 (vec4_set r0 j s) r1 r2 r3"
  "mat4_set (mat4 r0 r1 r2 r3) 1 j s = mat4 r0 (vec4_set r1 j s) r2 r3"
  "mat4_set (mat4 r0 r1 r2 r3) (Suc 0) j s = mat4 r0 (vec4_set r1 j s) r2 r3"
  "mat4_set (mat4 r0 r1 r2 r3) 2 j s = mat4 r0 r1 (vec4_set r2 j s) r3"
  "mat4_set (mat4 r0 r1 r2 r3) 3 j s = mat4 r0 r1 r2 (vec4_set r3 j s)"
  by simp_all







subsection \<open>The cofactor array is the adjugate\<close>

text \<open>
  The polynomial identities behind the inversion: the matrix times the array of
  cofactors that \<open>invert\<close> computes is the determinant on the diagonal and zero
  elsewhere, from either side.
\<close>

lemma adj_right_00:
  fixes m0 m1 m2 m3 m4 m5 m6 m7 m8 m9 m10 m11 m12 m13 m14 m15 :: real
  shows "m0 * (- (m7 * m10 * m13 + m15 * m6 * m9 + m5 * m11 * m14 - m5 * m10 * m15 - m13 * m6 * m11 - m7 * m9 * m14))
     + m1 * (m4 * m11 * m14 + m12 * m7 * m10 + m6 * m8 * m15 - m6 * m11 * m12 - m14 * m7 * m8 - m4 * m10 * m15)
     + m2 * (- (m5 * m8 * m15 + m13 * m4 * m11 + m7 * m9 * m12 - m7 * m8 * m13 - m15 * m4 * m9 - m5 * m11 * m12))
     + m3 * (m6 * m9 * m12 + m14 * m5 * m8 + m4 * m10 * m13 - m4 * m9 * m14 - m12 * m5 * m10 - m6 * m8 * m13) =
     m0 * (- (m7 * m10 * m13 + m15 * m6 * m9 + m5 * m11 * m14 - m5 * m10 * m15 - m13 * m6 * m11 - m7 * m9 * m14))
     + m1 * (m4 * m11 * m14 + m12 * m7 * m10 + m6 * m8 * m15 - m6 * m11 * m12 - m14 * m7 * m8 - m4 * m10 * m15)
     + m2 * (- (m5 * m8 * m15 + m13 * m4 * m11 + m7 * m9 * m12 - m7 * m8 * m13 - m15 * m4 * m9 - m5 * m11 * m12))
     + m3 * (m6 * m9 * m12 + m14 * m5 * m8 + m4 * m10 * m13 - m4 * m9 * m14 - m12 * m5 * m10 - m6 * m8 * m13)"
  by (simp add: algebra_simps)

lemma adj_right_01:
  fixes m0 m1 m2 m3 m4 m5 m6 m7 m8 m9 m10 m11 m12 m13 m14 m15 :: real
  shows "m0 * (m11 * m14 * m1 + m3 * m10 * m13 + m9 * m15 * m2 - m9 * m14 * m3 - m1 * m10 * m15 - m11 * m13 * m2)
     + m1 * (- (m8 * m15 * m2 + m0 * m11 * m14 + m10 * m12 * m3 - m10 * m15 * m0 - m2 * m11 * m12 - m8 * m14 * m3))
     + m2 * (m9 * m12 * m3 + m1 * m8 * m15 + m11 * m13 * m0 - m11 * m12 * m1 - m3 * m8 * m13 - m9 * m15 * m0)
     + m3 * (- (m10 * m13 * m0 + m2 * m9 * m12 + m8 * m14 * m1 - m8 * m13 * m2 - m0 * m9 * m14 - m10 * m12 * m1)) =
     0"
  by (simp add: algebra_simps)

lemma adj_right_02:
  fixes m0 m1 m2 m3 m4 m5 m6 m7 m8 m9 m10 m11 m12 m13 m14 m15 :: real
  shows "m0 * (- (m15 * m2 * m5 + m7 * m14 * m1 + m13 * m3 * m6 - m13 * m2 * m7 - m5 * m14 * m3 - m15 * m1 * m6))
     + m1 * (m12 * m3 * m6 + m4 * m15 * m2 + m14 * m0 * m7 - m14 * m3 * m4 - m6 * m15 * m0 - m12 * m2 * m7)
     + m2 * (- (m13 * m0 * m7 + m5 * m12 * m3 + m15 * m1 * m4 - m15 * m0 * m5 - m7 * m12 * m1 - m13 * m3 * m4))
     + m3 * (m14 * m1 * m4 + m6 * m13 * m0 + m12 * m2 * m5 - m12 * m1 * m6 - m4 * m13 * m2 - m14 * m0 * m5) =
     0"
  by (simp add: algebra_simps)

lemma adj_right_03:
  fixes m0 m1 m2 m3 m4 m5 m6 m7 m8 m9 m10 m11 m12 m13 m14 m15 :: real
  shows "m0 * (m3 * m6 * m9 + m11 * m2 * m5 + m1 * m7 * m10 - m1 * m6 * m11 - m9 * m2 * m7 - m3 * m5 * m10)
     + m1 * (- (m0 * m7 * m10 + m8 * m3 * m6 + m2 * m4 * m11 - m2 * m7 * m8 - m10 * m3 * m4 - m0 * m6 * m11))
     + m2 * (m1 * m4 * m11 + m9 * m0 * m7 + m3 * m5 * m8 - m3 * m4 * m9 - m11 * m0 * m5 - m1 * m7 * m8)
     + m3 * (- (m2 * m5 * m8 + m10 * m1 * m4 + m0 * m6 * m9 - m0 * m5 * m10 - m8 * m1 * m6 - m2 * m4 * m9)) =
     0"
  by (simp add: algebra_simps)

lemma adj_right_10:
  fixes m0 m1 m2 m3 m4 m5 m6 m7 m8 m9 m10 m11 m12 m13 m14 m15 :: real
  shows "m4 * (- (m7 * m10 * m13 + m15 * m6 * m9 + m5 * m11 * m14 - m5 * m10 * m15 - m13 * m6 * m11 - m7 * m9 * m14))
     + m5 * (m4 * m11 * m14 + m12 * m7 * m10 + m6 * m8 * m15 - m6 * m11 * m12 - m14 * m7 * m8 - m4 * m10 * m15)
     + m6 * (- (m5 * m8 * m15 + m13 * m4 * m11 + m7 * m9 * m12 - m7 * m8 * m13 - m15 * m4 * m9 - m5 * m11 * m12))
     + m7 * (m6 * m9 * m12 + m14 * m5 * m8 + m4 * m10 * m13 - m4 * m9 * m14 - m12 * m5 * m10 - m6 * m8 * m13) =
     0"
  by (simp add: algebra_simps)

lemma adj_right_11:
  fixes m0 m1 m2 m3 m4 m5 m6 m7 m8 m9 m10 m11 m12 m13 m14 m15 :: real
  shows "m4 * (m11 * m14 * m1 + m3 * m10 * m13 + m9 * m15 * m2 - m9 * m14 * m3 - m1 * m10 * m15 - m11 * m13 * m2)
     + m5 * (- (m8 * m15 * m2 + m0 * m11 * m14 + m10 * m12 * m3 - m10 * m15 * m0 - m2 * m11 * m12 - m8 * m14 * m3))
     + m6 * (m9 * m12 * m3 + m1 * m8 * m15 + m11 * m13 * m0 - m11 * m12 * m1 - m3 * m8 * m13 - m9 * m15 * m0)
     + m7 * (- (m10 * m13 * m0 + m2 * m9 * m12 + m8 * m14 * m1 - m8 * m13 * m2 - m0 * m9 * m14 - m10 * m12 * m1)) =
     m0 * (- (m7 * m10 * m13 + m15 * m6 * m9 + m5 * m11 * m14 - m5 * m10 * m15 - m13 * m6 * m11 - m7 * m9 * m14))
     + m1 * (m4 * m11 * m14 + m12 * m7 * m10 + m6 * m8 * m15 - m6 * m11 * m12 - m14 * m7 * m8 - m4 * m10 * m15)
     + m2 * (- (m5 * m8 * m15 + m13 * m4 * m11 + m7 * m9 * m12 - m7 * m8 * m13 - m15 * m4 * m9 - m5 * m11 * m12))
     + m3 * (m6 * m9 * m12 + m14 * m5 * m8 + m4 * m10 * m13 - m4 * m9 * m14 - m12 * m5 * m10 - m6 * m8 * m13)"
  by (simp add: algebra_simps)

lemma adj_right_12:
  fixes m0 m1 m2 m3 m4 m5 m6 m7 m8 m9 m10 m11 m12 m13 m14 m15 :: real
  shows "m4 * (- (m15 * m2 * m5 + m7 * m14 * m1 + m13 * m3 * m6 - m13 * m2 * m7 - m5 * m14 * m3 - m15 * m1 * m6))
     + m5 * (m12 * m3 * m6 + m4 * m15 * m2 + m14 * m0 * m7 - m14 * m3 * m4 - m6 * m15 * m0 - m12 * m2 * m7)
     + m6 * (- (m13 * m0 * m7 + m5 * m12 * m3 + m15 * m1 * m4 - m15 * m0 * m5 - m7 * m12 * m1 - m13 * m3 * m4))
     + m7 * (m14 * m1 * m4 + m6 * m13 * m0 + m12 * m2 * m5 - m12 * m1 * m6 - m4 * m13 * m2 - m14 * m0 * m5) =
     0"
  by (simp add: algebra_simps)

lemma adj_right_13:
  fixes m0 m1 m2 m3 m4 m5 m6 m7 m8 m9 m10 m11 m12 m13 m14 m15 :: real
  shows "m4 * (m3 * m6 * m9 + m11 * m2 * m5 + m1 * m7 * m10 - m1 * m6 * m11 - m9 * m2 * m7 - m3 * m5 * m10)
     + m5 * (- (m0 * m7 * m10 + m8 * m3 * m6 + m2 * m4 * m11 - m2 * m7 * m8 - m10 * m3 * m4 - m0 * m6 * m11))
     + m6 * (m1 * m4 * m11 + m9 * m0 * m7 + m3 * m5 * m8 - m3 * m4 * m9 - m11 * m0 * m5 - m1 * m7 * m8)
     + m7 * (- (m2 * m5 * m8 + m10 * m1 * m4 + m0 * m6 * m9 - m0 * m5 * m10 - m8 * m1 * m6 - m2 * m4 * m9)) =
     0"
  by (simp add: algebra_simps)

lemma adj_right_20:
  fixes m0 m1 m2 m3 m4 m5 m6 m7 m8 m9 m10 m11 m12 m13 m14 m15 :: real
  shows "m8 * (- (m7 * m10 * m13 + m15 * m6 * m9 + m5 * m11 * m14 - m5 * m10 * m15 - m13 * m6 * m11 - m7 * m9 * m14))
     + m9 * (m4 * m11 * m14 + m12 * m7 * m10 + m6 * m8 * m15 - m6 * m11 * m12 - m14 * m7 * m8 - m4 * m10 * m15)
     + m10 * (- (m5 * m8 * m15 + m13 * m4 * m11 + m7 * m9 * m12 - m7 * m8 * m13 - m15 * m4 * m9 - m5 * m11 * m12))
     + m11 * (m6 * m9 * m12 + m14 * m5 * m8 + m4 * m10 * m13 - m4 * m9 * m14 - m12 * m5 * m10 - m6 * m8 * m13) =
     0"
  by (simp add: algebra_simps)

lemma adj_right_21:
  fixes m0 m1 m2 m3 m4 m5 m6 m7 m8 m9 m10 m11 m12 m13 m14 m15 :: real
  shows "m8 * (m11 * m14 * m1 + m3 * m10 * m13 + m9 * m15 * m2 - m9 * m14 * m3 - m1 * m10 * m15 - m11 * m13 * m2)
     + m9 * (- (m8 * m15 * m2 + m0 * m11 * m14 + m10 * m12 * m3 - m10 * m15 * m0 - m2 * m11 * m12 - m8 * m14 * m3))
     + m10 * (m9 * m12 * m3 + m1 * m8 * m15 + m11 * m13 * m0 - m11 * m12 * m1 - m3 * m8 * m13 - m9 * m15 * m0)
     + m11 * (- (m10 * m13 * m0 + m2 * m9 * m12 + m8 * m14 * m1 - m8 * m13 * m2 - m0 * m9 * m14 - m10 * m12 * m1)) =
     0"
  by (simp add: algebra_simps)

lemma adj_right_22:
  fixes m0 m1 m2 m3 m4 m5 m6 m7 m8 m9 m10 m11 m12 m13 m14 m15 :: real
  shows "m8 * (- (m15 * m2 * m5 + m7 * m14 * m1 + m13 * m3 * m6 - m13 * m2 * m7 - m5 * m14 * m3 - m15 * m1 * m6))
     + m9 * (m12 * m3 * m6 + m4 * m15 * m2 + m14 * m0 * m7 - m14 * m3 * m4 - m6 * m15 * m0 - m12 * m2 * m7)
     + m10 * (- (m13 * m0 * m7 + m5 * m12 * m3 + m15 * m1 * m4 - m15 * m0 * m5 - m7 * m12 * m1 - m13 * m3 * m4))
     + m11 * (m14 * m1 * m4 + m6 * m13 * m0 + m12 * m2 * m5 - m12 * m1 * m6 - m4 * m13 * m2 - m14 * m0 * m5) =
     m0 * (- (m7 * m10 * m13 + m15 * m6 * m9 + m5 * m11 * m14 - m5 * m10 * m15 - m13 * m6 * m11 - m7 * m9 * m14))
     + m1 * (m4 * m11 * m14 + m12 * m7 * m10 + m6 * m8 * m15 - m6 * m11 * m12 - m14 * m7 * m8 - m4 * m10 * m15)
     + m2 * (- (m5 * m8 * m15 + m13 * m4 * m11 + m7 * m9 * m12 - m7 * m8 * m13 - m15 * m4 * m9 - m5 * m11 * m12))
     + m3 * (m6 * m9 * m12 + m14 * m5 * m8 + m4 * m10 * m13 - m4 * m9 * m14 - m12 * m5 * m10 - m6 * m8 * m13)"
  by (simp add: algebra_simps)

lemma adj_right_23:
  fixes m0 m1 m2 m3 m4 m5 m6 m7 m8 m9 m10 m11 m12 m13 m14 m15 :: real
  shows "m8 * (m3 * m6 * m9 + m11 * m2 * m5 + m1 * m7 * m10 - m1 * m6 * m11 - m9 * m2 * m7 - m3 * m5 * m10)
     + m9 * (- (m0 * m7 * m10 + m8 * m3 * m6 + m2 * m4 * m11 - m2 * m7 * m8 - m10 * m3 * m4 - m0 * m6 * m11))
     + m10 * (m1 * m4 * m11 + m9 * m0 * m7 + m3 * m5 * m8 - m3 * m4 * m9 - m11 * m0 * m5 - m1 * m7 * m8)
     + m11 * (- (m2 * m5 * m8 + m10 * m1 * m4 + m0 * m6 * m9 - m0 * m5 * m10 - m8 * m1 * m6 - m2 * m4 * m9)) =
     0"
  by (simp add: algebra_simps)

lemma adj_right_30:
  fixes m0 m1 m2 m3 m4 m5 m6 m7 m8 m9 m10 m11 m12 m13 m14 m15 :: real
  shows "m12 * (- (m7 * m10 * m13 + m15 * m6 * m9 + m5 * m11 * m14 - m5 * m10 * m15 - m13 * m6 * m11 - m7 * m9 * m14))
     + m13 * (m4 * m11 * m14 + m12 * m7 * m10 + m6 * m8 * m15 - m6 * m11 * m12 - m14 * m7 * m8 - m4 * m10 * m15)
     + m14 * (- (m5 * m8 * m15 + m13 * m4 * m11 + m7 * m9 * m12 - m7 * m8 * m13 - m15 * m4 * m9 - m5 * m11 * m12))
     + m15 * (m6 * m9 * m12 + m14 * m5 * m8 + m4 * m10 * m13 - m4 * m9 * m14 - m12 * m5 * m10 - m6 * m8 * m13) =
     0"
  by (simp add: algebra_simps)

lemma adj_right_31:
  fixes m0 m1 m2 m3 m4 m5 m6 m7 m8 m9 m10 m11 m12 m13 m14 m15 :: real
  shows "m12 * (m11 * m14 * m1 + m3 * m10 * m13 + m9 * m15 * m2 - m9 * m14 * m3 - m1 * m10 * m15 - m11 * m13 * m2)
     + m13 * (- (m8 * m15 * m2 + m0 * m11 * m14 + m10 * m12 * m3 - m10 * m15 * m0 - m2 * m11 * m12 - m8 * m14 * m3))
     + m14 * (m9 * m12 * m3 + m1 * m8 * m15 + m11 * m13 * m0 - m11 * m12 * m1 - m3 * m8 * m13 - m9 * m15 * m0)
     + m15 * (- (m10 * m13 * m0 + m2 * m9 * m12 + m8 * m14 * m1 - m8 * m13 * m2 - m0 * m9 * m14 - m10 * m12 * m1)) =
     0"
  by (simp add: algebra_simps)

lemma adj_right_32:
  fixes m0 m1 m2 m3 m4 m5 m6 m7 m8 m9 m10 m11 m12 m13 m14 m15 :: real
  shows "m12 * (- (m15 * m2 * m5 + m7 * m14 * m1 + m13 * m3 * m6 - m13 * m2 * m7 - m5 * m14 * m3 - m15 * m1 * m6))
     + m13 * (m12 * m3 * m6 + m4 * m15 * m2 + m14 * m0 * m7 - m14 * m3 * m4 - m6 * m15 * m0 - m12 * m2 * m7)
     + m14 * (- (m13 * m0 * m7 + m5 * m12 * m3 + m15 * m1 * m4 - m15 * m0 * m5 - m7 * m12 * m1 - m13 * m3 * m4))
     + m15 * (m14 * m1 * m4 + m6 * m13 * m0 + m12 * m2 * m5 - m12 * m1 * m6 - m4 * m13 * m2 - m14 * m0 * m5) =
     0"
  by (simp add: algebra_simps)

lemma adj_right_33:
  fixes m0 m1 m2 m3 m4 m5 m6 m7 m8 m9 m10 m11 m12 m13 m14 m15 :: real
  shows "m12 * (m3 * m6 * m9 + m11 * m2 * m5 + m1 * m7 * m10 - m1 * m6 * m11 - m9 * m2 * m7 - m3 * m5 * m10)
     + m13 * (- (m0 * m7 * m10 + m8 * m3 * m6 + m2 * m4 * m11 - m2 * m7 * m8 - m10 * m3 * m4 - m0 * m6 * m11))
     + m14 * (m1 * m4 * m11 + m9 * m0 * m7 + m3 * m5 * m8 - m3 * m4 * m9 - m11 * m0 * m5 - m1 * m7 * m8)
     + m15 * (- (m2 * m5 * m8 + m10 * m1 * m4 + m0 * m6 * m9 - m0 * m5 * m10 - m8 * m1 * m6 - m2 * m4 * m9)) =
     m0 * (- (m7 * m10 * m13 + m15 * m6 * m9 + m5 * m11 * m14 - m5 * m10 * m15 - m13 * m6 * m11 - m7 * m9 * m14))
     + m1 * (m4 * m11 * m14 + m12 * m7 * m10 + m6 * m8 * m15 - m6 * m11 * m12 - m14 * m7 * m8 - m4 * m10 * m15)
     + m2 * (- (m5 * m8 * m15 + m13 * m4 * m11 + m7 * m9 * m12 - m7 * m8 * m13 - m15 * m4 * m9 - m5 * m11 * m12))
     + m3 * (m6 * m9 * m12 + m14 * m5 * m8 + m4 * m10 * m13 - m4 * m9 * m14 - m12 * m5 * m10 - m6 * m8 * m13)"
  by (simp add: algebra_simps)

lemma adj_left_00:
  fixes m0 m1 m2 m3 m4 m5 m6 m7 m8 m9 m10 m11 m12 m13 m14 m15 :: real
  shows "(- (m7 * m10 * m13 + m15 * m6 * m9 + m5 * m11 * m14 - m5 * m10 * m15 - m13 * m6 * m11 - m7 * m9 * m14)) * m0
     + (m11 * m14 * m1 + m3 * m10 * m13 + m9 * m15 * m2 - m9 * m14 * m3 - m1 * m10 * m15 - m11 * m13 * m2) * m4
     + (- (m15 * m2 * m5 + m7 * m14 * m1 + m13 * m3 * m6 - m13 * m2 * m7 - m5 * m14 * m3 - m15 * m1 * m6)) * m8
     + (m3 * m6 * m9 + m11 * m2 * m5 + m1 * m7 * m10 - m1 * m6 * m11 - m9 * m2 * m7 - m3 * m5 * m10) * m12 =
     m0 * (- (m7 * m10 * m13 + m15 * m6 * m9 + m5 * m11 * m14 - m5 * m10 * m15 - m13 * m6 * m11 - m7 * m9 * m14))
     + m1 * (m4 * m11 * m14 + m12 * m7 * m10 + m6 * m8 * m15 - m6 * m11 * m12 - m14 * m7 * m8 - m4 * m10 * m15)
     + m2 * (- (m5 * m8 * m15 + m13 * m4 * m11 + m7 * m9 * m12 - m7 * m8 * m13 - m15 * m4 * m9 - m5 * m11 * m12))
     + m3 * (m6 * m9 * m12 + m14 * m5 * m8 + m4 * m10 * m13 - m4 * m9 * m14 - m12 * m5 * m10 - m6 * m8 * m13)"
  by (simp add: algebra_simps)

lemma adj_left_01:
  fixes m0 m1 m2 m3 m4 m5 m6 m7 m8 m9 m10 m11 m12 m13 m14 m15 :: real
  shows "(- (m7 * m10 * m13 + m15 * m6 * m9 + m5 * m11 * m14 - m5 * m10 * m15 - m13 * m6 * m11 - m7 * m9 * m14)) * m1
     + (m11 * m14 * m1 + m3 * m10 * m13 + m9 * m15 * m2 - m9 * m14 * m3 - m1 * m10 * m15 - m11 * m13 * m2) * m5
     + (- (m15 * m2 * m5 + m7 * m14 * m1 + m13 * m3 * m6 - m13 * m2 * m7 - m5 * m14 * m3 - m15 * m1 * m6)) * m9
     + (m3 * m6 * m9 + m11 * m2 * m5 + m1 * m7 * m10 - m1 * m6 * m11 - m9 * m2 * m7 - m3 * m5 * m10) * m13 =
     0"
  by (simp add: algebra_simps)

lemma adj_left_02:
  fixes m0 m1 m2 m3 m4 m5 m6 m7 m8 m9 m10 m11 m12 m13 m14 m15 :: real
  shows "(- (m7 * m10 * m13 + m15 * m6 * m9 + m5 * m11 * m14 - m5 * m10 * m15 - m13 * m6 * m11 - m7 * m9 * m14)) * m2
     + (m11 * m14 * m1 + m3 * m10 * m13 + m9 * m15 * m2 - m9 * m14 * m3 - m1 * m10 * m15 - m11 * m13 * m2) * m6
     + (- (m15 * m2 * m5 + m7 * m14 * m1 + m13 * m3 * m6 - m13 * m2 * m7 - m5 * m14 * m3 - m15 * m1 * m6)) * m10
     + (m3 * m6 * m9 + m11 * m2 * m5 + m1 * m7 * m10 - m1 * m6 * m11 - m9 * m2 * m7 - m3 * m5 * m10) * m14 =
     0"
  by (simp add: algebra_simps)

lemma adj_left_03:
  fixes m0 m1 m2 m3 m4 m5 m6 m7 m8 m9 m10 m11 m12 m13 m14 m15 :: real
  shows "(- (m7 * m10 * m13 + m15 * m6 * m9 + m5 * m11 * m14 - m5 * m10 * m15 - m13 * m6 * m11 - m7 * m9 * m14)) * m3
     + (m11 * m14 * m1 + m3 * m10 * m13 + m9 * m15 * m2 - m9 * m14 * m3 - m1 * m10 * m15 - m11 * m13 * m2) * m7
     + (- (m15 * m2 * m5 + m7 * m14 * m1 + m13 * m3 * m6 - m13 * m2 * m7 - m5 * m14 * m3 - m15 * m1 * m6)) * m11
     + (m3 * m6 * m9 + m11 * m2 * m5 + m1 * m7 * m10 - m1 * m6 * m11 - m9 * m2 * m7 - m3 * m5 * m10) * m15 =
     0"
  by (simp add: algebra_simps)

lemma adj_left_10:
  fixes m0 m1 m2 m3 m4 m5 m6 m7 m8 m9 m10 m11 m12 m13 m14 m15 :: real
  shows "(m4 * m11 * m14 + m12 * m7 * m10 + m6 * m8 * m15 - m6 * m11 * m12 - m14 * m7 * m8 - m4 * m10 * m15) * m0
     + (- (m8 * m15 * m2 + m0 * m11 * m14 + m10 * m12 * m3 - m10 * m15 * m0 - m2 * m11 * m12 - m8 * m14 * m3)) * m4
     + (m12 * m3 * m6 + m4 * m15 * m2 + m14 * m0 * m7 - m14 * m3 * m4 - m6 * m15 * m0 - m12 * m2 * m7) * m8
     + (- (m0 * m7 * m10 + m8 * m3 * m6 + m2 * m4 * m11 - m2 * m7 * m8 - m10 * m3 * m4 - m0 * m6 * m11)) * m12 =
     0"
  by (simp add: algebra_simps)

lemma adj_left_11:
  fixes m0 m1 m2 m3 m4 m5 m6 m7 m8 m9 m10 m11 m12 m13 m14 m15 :: real
  shows "(m4 * m11 * m14 + m12 * m7 * m10 + m6 * m8 * m15 - m6 * m11 * m12 - m14 * m7 * m8 - m4 * m10 * m15) * m1
     + (- (m8 * m15 * m2 + m0 * m11 * m14 + m10 * m12 * m3 - m10 * m15 * m0 - m2 * m11 * m12 - m8 * m14 * m3)) * m5
     + (m12 * m3 * m6 + m4 * m15 * m2 + m14 * m0 * m7 - m14 * m3 * m4 - m6 * m15 * m0 - m12 * m2 * m7) * m9
     + (- (m0 * m7 * m10 + m8 * m3 * m6 + m2 * m4 * m11 - m2 * m7 * m8 - m10 * m3 * m4 - m0 * m6 * m11)) * m13 =
     m0 * (- (m7 * m10 * m13 + m15 * m6 * m9 + m5 * m11 * m14 - m5 * m10 * m15 - m13 * m6 * m11 - m7 * m9 * m14))
     + m1 * (m4 * m11 * m14 + m12 * m7 * m10 + m6 * m8 * m15 - m6 * m11 * m12 - m14 * m7 * m8 - m4 * m10 * m15)
     + m2 * (- (m5 * m8 * m15 + m13 * m4 * m11 + m7 * m9 * m12 - m7 * m8 * m13 - m15 * m4 * m9 - m5 * m11 * m12))
     + m3 * (m6 * m9 * m12 + m14 * m5 * m8 + m4 * m10 * m13 - m4 * m9 * m14 - m12 * m5 * m10 - m6 * m8 * m13)"
  by (simp add: algebra_simps)

lemma adj_left_12:
  fixes m0 m1 m2 m3 m4 m5 m6 m7 m8 m9 m10 m11 m12 m13 m14 m15 :: real
  shows "(m4 * m11 * m14 + m12 * m7 * m10 + m6 * m8 * m15 - m6 * m11 * m12 - m14 * m7 * m8 - m4 * m10 * m15) * m2
     + (- (m8 * m15 * m2 + m0 * m11 * m14 + m10 * m12 * m3 - m10 * m15 * m0 - m2 * m11 * m12 - m8 * m14 * m3)) * m6
     + (m12 * m3 * m6 + m4 * m15 * m2 + m14 * m0 * m7 - m14 * m3 * m4 - m6 * m15 * m0 - m12 * m2 * m7) * m10
     + (- (m0 * m7 * m10 + m8 * m3 * m6 + m2 * m4 * m11 - m2 * m7 * m8 - m10 * m3 * m4 - m0 * m6 * m11)) * m14 =
     0"
  by (simp add: algebra_simps)

lemma adj_left_13:
  fixes m0 m1 m2 m3 m4 m5 m6 m7 m8 m9 m10 m11 m12 m13 m14 m15 :: real
  shows "(m4 * m11 * m14 + m12 * m7 * m10 + m6 * m8 * m15 - m6 * m11 * m12 - m14 * m7 * m8 - m4 * m10 * m15) * m3
     + (- (m8 * m15 * m2 + m0 * m11 * m14 + m10 * m12 * m3 - m10 * m15 * m0 - m2 * m11 * m12 - m8 * m14 * m3)) * m7
     + (m12 * m3 * m6 + m4 * m15 * m2 + m14 * m0 * m7 - m14 * m3 * m4 - m6 * m15 * m0 - m12 * m2 * m7) * m11
     + (- (m0 * m7 * m10 + m8 * m3 * m6 + m2 * m4 * m11 - m2 * m7 * m8 - m10 * m3 * m4 - m0 * m6 * m11)) * m15 =
     0"
  by (simp add: algebra_simps)

lemma adj_left_20:
  fixes m0 m1 m2 m3 m4 m5 m6 m7 m8 m9 m10 m11 m12 m13 m14 m15 :: real
  shows "(- (m5 * m8 * m15 + m13 * m4 * m11 + m7 * m9 * m12 - m7 * m8 * m13 - m15 * m4 * m9 - m5 * m11 * m12)) * m0
     + (m9 * m12 * m3 + m1 * m8 * m15 + m11 * m13 * m0 - m11 * m12 * m1 - m3 * m8 * m13 - m9 * m15 * m0) * m4
     + (- (m13 * m0 * m7 + m5 * m12 * m3 + m15 * m1 * m4 - m15 * m0 * m5 - m7 * m12 * m1 - m13 * m3 * m4)) * m8
     + (m1 * m4 * m11 + m9 * m0 * m7 + m3 * m5 * m8 - m3 * m4 * m9 - m11 * m0 * m5 - m1 * m7 * m8) * m12 =
     0"
  by (simp add: algebra_simps)

lemma adj_left_21:
  fixes m0 m1 m2 m3 m4 m5 m6 m7 m8 m9 m10 m11 m12 m13 m14 m15 :: real
  shows "(- (m5 * m8 * m15 + m13 * m4 * m11 + m7 * m9 * m12 - m7 * m8 * m13 - m15 * m4 * m9 - m5 * m11 * m12)) * m1
     + (m9 * m12 * m3 + m1 * m8 * m15 + m11 * m13 * m0 - m11 * m12 * m1 - m3 * m8 * m13 - m9 * m15 * m0) * m5
     + (- (m13 * m0 * m7 + m5 * m12 * m3 + m15 * m1 * m4 - m15 * m0 * m5 - m7 * m12 * m1 - m13 * m3 * m4)) * m9
     + (m1 * m4 * m11 + m9 * m0 * m7 + m3 * m5 * m8 - m3 * m4 * m9 - m11 * m0 * m5 - m1 * m7 * m8) * m13 =
     0"
  by (simp add: algebra_simps)

lemma adj_left_22:
  fixes m0 m1 m2 m3 m4 m5 m6 m7 m8 m9 m10 m11 m12 m13 m14 m15 :: real
  shows "(- (m5 * m8 * m15 + m13 * m4 * m11 + m7 * m9 * m12 - m7 * m8 * m13 - m15 * m4 * m9 - m5 * m11 * m12)) * m2
     + (m9 * m12 * m3 + m1 * m8 * m15 + m11 * m13 * m0 - m11 * m12 * m1 - m3 * m8 * m13 - m9 * m15 * m0) * m6
     + (- (m13 * m0 * m7 + m5 * m12 * m3 + m15 * m1 * m4 - m15 * m0 * m5 - m7 * m12 * m1 - m13 * m3 * m4)) * m10
     + (m1 * m4 * m11 + m9 * m0 * m7 + m3 * m5 * m8 - m3 * m4 * m9 - m11 * m0 * m5 - m1 * m7 * m8) * m14 =
     m0 * (- (m7 * m10 * m13 + m15 * m6 * m9 + m5 * m11 * m14 - m5 * m10 * m15 - m13 * m6 * m11 - m7 * m9 * m14))
     + m1 * (m4 * m11 * m14 + m12 * m7 * m10 + m6 * m8 * m15 - m6 * m11 * m12 - m14 * m7 * m8 - m4 * m10 * m15)
     + m2 * (- (m5 * m8 * m15 + m13 * m4 * m11 + m7 * m9 * m12 - m7 * m8 * m13 - m15 * m4 * m9 - m5 * m11 * m12))
     + m3 * (m6 * m9 * m12 + m14 * m5 * m8 + m4 * m10 * m13 - m4 * m9 * m14 - m12 * m5 * m10 - m6 * m8 * m13)"
  by (simp add: algebra_simps)

lemma adj_left_23:
  fixes m0 m1 m2 m3 m4 m5 m6 m7 m8 m9 m10 m11 m12 m13 m14 m15 :: real
  shows "(- (m5 * m8 * m15 + m13 * m4 * m11 + m7 * m9 * m12 - m7 * m8 * m13 - m15 * m4 * m9 - m5 * m11 * m12)) * m3
     + (m9 * m12 * m3 + m1 * m8 * m15 + m11 * m13 * m0 - m11 * m12 * m1 - m3 * m8 * m13 - m9 * m15 * m0) * m7
     + (- (m13 * m0 * m7 + m5 * m12 * m3 + m15 * m1 * m4 - m15 * m0 * m5 - m7 * m12 * m1 - m13 * m3 * m4)) * m11
     + (m1 * m4 * m11 + m9 * m0 * m7 + m3 * m5 * m8 - m3 * m4 * m9 - m11 * m0 * m5 - m1 * m7 * m8) * m15 =
     0"
  by (simp add: algebra_simps)

lemma adj_left_30:
  fixes m0 m1 m2 m3 m4 m5 m6 m7 m8 m9 m10 m11 m12 m13 m14 m15 :: real
  shows "(m6 * m9 * m12 + m14 * m5 * m8 + m4 * m10 * m13 - m4 * m9 * m14 - m12 * m5 * m10 - m6 * m8 * m13) * m0
     + (- (m10 * m13 * m0 + m2 * m9 * m12 + m8 * m14 * m1 - m8 * m13 * m2 - m0 * m9 * m14 - m10 * m12 * m1)) * m4
     + (m14 * m1 * m4 + m6 * m13 * m0 + m12 * m2 * m5 - m12 * m1 * m6 - m4 * m13 * m2 - m14 * m0 * m5) * m8
     + (- (m2 * m5 * m8 + m10 * m1 * m4 + m0 * m6 * m9 - m0 * m5 * m10 - m8 * m1 * m6 - m2 * m4 * m9)) * m12 =
     0"
  by (simp add: algebra_simps)

lemma adj_left_31:
  fixes m0 m1 m2 m3 m4 m5 m6 m7 m8 m9 m10 m11 m12 m13 m14 m15 :: real
  shows "(m6 * m9 * m12 + m14 * m5 * m8 + m4 * m10 * m13 - m4 * m9 * m14 - m12 * m5 * m10 - m6 * m8 * m13) * m1
     + (- (m10 * m13 * m0 + m2 * m9 * m12 + m8 * m14 * m1 - m8 * m13 * m2 - m0 * m9 * m14 - m10 * m12 * m1)) * m5
     + (m14 * m1 * m4 + m6 * m13 * m0 + m12 * m2 * m5 - m12 * m1 * m6 - m4 * m13 * m2 - m14 * m0 * m5) * m9
     + (- (m2 * m5 * m8 + m10 * m1 * m4 + m0 * m6 * m9 - m0 * m5 * m10 - m8 * m1 * m6 - m2 * m4 * m9)) * m13 =
     0"
  by (simp add: algebra_simps)

lemma adj_left_32:
  fixes m0 m1 m2 m3 m4 m5 m6 m7 m8 m9 m10 m11 m12 m13 m14 m15 :: real
  shows "(m6 * m9 * m12 + m14 * m5 * m8 + m4 * m10 * m13 - m4 * m9 * m14 - m12 * m5 * m10 - m6 * m8 * m13) * m2
     + (- (m10 * m13 * m0 + m2 * m9 * m12 + m8 * m14 * m1 - m8 * m13 * m2 - m0 * m9 * m14 - m10 * m12 * m1)) * m6
     + (m14 * m1 * m4 + m6 * m13 * m0 + m12 * m2 * m5 - m12 * m1 * m6 - m4 * m13 * m2 - m14 * m0 * m5) * m10
     + (- (m2 * m5 * m8 + m10 * m1 * m4 + m0 * m6 * m9 - m0 * m5 * m10 - m8 * m1 * m6 - m2 * m4 * m9)) * m14 =
     0"
  by (simp add: algebra_simps)

lemma adj_left_33:
  fixes m0 m1 m2 m3 m4 m5 m6 m7 m8 m9 m10 m11 m12 m13 m14 m15 :: real
  shows "(m6 * m9 * m12 + m14 * m5 * m8 + m4 * m10 * m13 - m4 * m9 * m14 - m12 * m5 * m10 - m6 * m8 * m13) * m3
     + (- (m10 * m13 * m0 + m2 * m9 * m12 + m8 * m14 * m1 - m8 * m13 * m2 - m0 * m9 * m14 - m10 * m12 * m1)) * m7
     + (m14 * m1 * m4 + m6 * m13 * m0 + m12 * m2 * m5 - m12 * m1 * m6 - m4 * m13 * m2 - m14 * m0 * m5) * m11
     + (- (m2 * m5 * m8 + m10 * m1 * m4 + m0 * m6 * m9 - m0 * m5 * m10 - m8 * m1 * m6 - m2 * m4 * m9)) * m15 =
     m0 * (- (m7 * m10 * m13 + m15 * m6 * m9 + m5 * m11 * m14 - m5 * m10 * m15 - m13 * m6 * m11 - m7 * m9 * m14))
     + m1 * (m4 * m11 * m14 + m12 * m7 * m10 + m6 * m8 * m15 - m6 * m11 * m12 - m14 * m7 * m8 - m4 * m10 * m15)
     + m2 * (- (m5 * m8 * m15 + m13 * m4 * m11 + m7 * m9 * m12 - m7 * m8 * m13 - m15 * m4 * m9 - m5 * m11 * m12))
     + m3 * (m6 * m9 * m12 + m14 * m5 * m8 + m4 * m10 * m13 - m4 * m9 * m14 - m12 * m5 * m10 - m6 * m8 * m13)"
  by (simp add: algebra_simps)

lemmas adj_right = adj_right_00 adj_right_01 adj_right_02 adj_right_03 adj_right_10 adj_right_11 adj_right_12 adj_right_13 adj_right_20 adj_right_21 adj_right_22 adj_right_23 adj_right_30 adj_right_31 adj_right_32 adj_right_33

lemmas adj_left = adj_left_00 adj_left_01 adj_left_02 adj_left_03 adj_left_10 adj_left_11 adj_left_12 adj_left_13 adj_left_20 adj_left_21 adj_left_22 adj_left_23 adj_left_30 adj_left_31 adj_left_32 adj_left_33

subsection \<open>InvertMatrix4x4 and Inverse\<close>











lemma mat3_at_rows [simp]:
  "mat3_at (mat3 r0 r1 r2) 0 j = vec3_at r0 j" "mat3_at (mat3 r0 r1 r2) 1 j = vec3_at r1 j"
  "mat3_at (mat3 r0 r1 r2) (Suc 0) j = vec3_at r1 j" "mat3_at (mat3 r0 r1 r2) 2 j = vec3_at r2 j"
  by (simp_all add: mat3_at_def)

lemma vec3_at_cols [simp]:
  "vec3_at (vec3 a b c) 0 = a" "vec3_at (vec3 a b c) 1 = b" "vec3_at (vec3 a b c) (Suc 0) = b"
  "vec3_at (vec3 a b c) 2 = c"
  by (simp_all add: vec3_at_def)















section \<open>Properties of Orthographic\<close>

text \<open>
  C5 (as the claim states it, refuted). \<open>Orthographic(-1, 1, -1, 1, -1, 1)\<close> times
  \<open>(1,1,1,1)\<close> is not \<open>(1,1,1,1)\<close>: the entry \<open>c[2][2] = 2/(zNear - zFar)\<close> is \<open>-1\<close>.
\<close>

theorem Orthographic_unit_box_corner_not_fixed:
  "mat4_mul_vec (Orthographic (- 1) 1 (- 1) 1 (- 1) 1) (vec4 1 1 1 1) \<noteq> vec4 1 1 1 1"
  by (simp add: Orthographic_def Let_def mat4_diag_def mat4_mul_vec_def dot4_def)

text \<open>
  C5 (amended). \<open>Orthographic(-1, 1, -1, 1, -1, 1)\<close> is the diagonal matrix
  \<open>(1, 1, -1, 1)\<close>, and applied to \<open>(1,1,1,1)\<close> it yields exactly \<open>(1,1,-1,1)\<close>: the box is
  kept in \<open>x\<close> and \<open>y\<close> and mirrored in \<open>z\<close>.
\<close>

theorem Orthographic_unit_box_flips_z:
  "Orthographic (- 1) 1 (- 1) 1 (- 1) 1 =
     mat4 (vec4 1 0 0 0) (vec4 0 1 0 0) (vec4 0 0 (- 1) 0) (vec4 0 0 0 1)
   \<and> mat4_mul_vec (Orthographic (- 1) 1 (- 1) 1 (- 1) 1) (vec4 1 1 1 1) = vec4 1 1 (- 1) 1"
  by (simp add: Orthographic_def Let_def mat4_diag_def mat4_mul_vec_def dot4_def)

section \<open>Properties of the 3x3 matrices\<close>

lemma vec3_set_cols [simp]:
  "vec3_set (vec3 a b c) 0 s = vec3 s b c" "vec3_set (vec3 a b c) 1 s = vec3 a s c"
  "vec3_set (vec3 a b c) (Suc 0) s = vec3 a s c" "vec3_set (vec3 a b c) 2 s = vec3 a b s"
  by (simp_all add: vec3_set_def vec3_def)

lemma mat3_set_rows [simp]:
  "mat3_set (mat3 r0 r1 r2) 0 j s = mat3 (vec3_set r0 j s) r1 r2"
  "mat3_set (mat3 r0 r1 r2) 1 j s = mat3 r0 (vec3_set r1 j s) r2"
  "mat3_set (mat3 r0 r1 r2) (Suc 0) j s = mat3 r0 (vec3_set r1 j s) r2"
  "mat3_set (mat3 r0 r1 r2) 2 j s = mat3 r0 r1 (vec3_set r2 j s)"
  by simp_all

lemma mat3_entries:
  obtains a00 a01 a02 a10 a11 a12 a20 a21 a22
  where "M = mat3 (vec3 a00 a01 a02) (vec3 a10 a11 a12) (vec3 a20 a21 a22)"
proof (cases M)
  case (mat3 r0 r1 r2)
  show ?thesis
    using that [of "vec3.x r0" "vec3.y r0" "vec3.z r0" "vec3.x r1" "vec3.y r1" "vec3.z r1"
        "vec3.x r2" "vec3.y r2" "vec3.z r2"]
    by (simp add: mat3 vec3_eta)
qed

lemma mat3_mul_eval:
  "mat3_mul (mat3 (vec3 a00 a01 a02) (vec3 a10 a11 a12) (vec3 a20 a21 a22))
            (mat3 (vec3 b00 b01 b02) (vec3 b10 b11 b12) (vec3 b20 b21 b22)) =
     mat3 (vec3 (a00 * b00 + a01 * b10 + a02 * b20) (a00 * b01 + a01 * b11 + a02 * b21) (a00 * b02 + a01 * b12 + a02 * b22))
          (vec3 (a10 * b00 + a11 * b10 + a12 * b20) (a10 * b01 + a11 * b11 + a12 * b21) (a10 * b02 + a11 * b12 + a12 * b22))
          (vec3 (a20 * b00 + a21 * b10 + a22 * b20) (a20 * b01 + a21 * b11 + a22 * b21) (a20 * b02 + a21 * b12 + a22 * b22))"
  by (simp add: mat3_mul_def mat3_mul_j_def mat3_mul_k_def mat3_mul_body_def mat3_diag_def upt3
      del: mat3_set.simps mat3_row.simps)

lemma mat3_scale_eval:
  "mat3_scale (mat3 (vec3 a00 a01 a02) (vec3 a10 a11 a12) (vec3 a20 a21 a22)) s =
     mat3 (vec3 (s * a00) (s * a01) (s * a02)) (vec3 (s * a10) (s * a11) (s * a12))
          (vec3 (s * a20) (s * a21) (s * a22))"
  by (simp add: mat3_scale_def vec3_scale_def)

lemma Adjoint3x3_eval:
  "Adjoint3x3 (mat3 (vec3 a00 a01 a02) (vec3 a10 a11 a12) (vec3 a20 a21 a22)) =
     mat3 (vec3 (a11 * a22 - a12 * a21) (- (a01 * a22 - a02 * a21)) (a01 * a12 - a02 * a11))
          (vec3 (- (a10 * a22 - a12 * a20)) (a00 * a22 - a02 * a20) (- (a00 * a12 - a02 * a10)))
          (vec3 (a10 * a21 - a11 * a20) (- (a00 * a21 - a01 * a20)) (a00 * a11 - a01 * a10))"
  by (simp add: Adjoint3x3_def Let_def mat3_diag_def del: mat3_set.simps)

lemma det3_eval:
  "det3 (mat3 (vec3 a00 a01 a02) (vec3 a10 a11 a12) (vec3 a20 a21 a22)) =
     a00 * a11 * a22 + a01 * a12 * a20 + a02 * a10 * a21 - a02 * a11 * a20 - a01 * a10 * a22
     - a00 * a12 * a21"
  by (simp add: det3_def)




lemma mul_Adjoint3x3_left: "mat3_mul (Adjoint3x3 M) M = mat3_diag (det3 M)"
proof -
  obtain a00 a01 a02 a10 a11 a12 a20 a21 a22
    where M: "M = mat3 (vec3 a00 a01 a02) (vec3 a10 a11 a12) (vec3 a20 a21 a22)"
    by (rule mat3_entries)
  show ?thesis
    unfolding M Adjoint3x3_eval mat3_mul_eval det3_eval mat3_diag_def
    by (simp add: algebra_simps)
qed







section \<open>Properties of the quaternions\<close>

subsection \<open>Pure rotations\<close>

lemma Transpose3_eval:
  "Transpose3 (mat3 (vec3 a00 a01 a02) (vec3 a10 a11 a12) (vec3 a20 a21 a22)) =
     mat3 (vec3 a00 a10 a20) (vec3 a01 a11 a21) (vec3 a02 a12 a22)"
  by (simp add: Transpose3_def)

lemma mul_Adjoint3x3_mul_Transpose3:
  "mat3_mul (Adjoint3x3 R) (mat3_mul R (Transpose3 R)) = mat3_scale (Transpose3 R) (det3 R)"
proof -
  obtain a00 a01 a02 a10 a11 a12 a20 a21 a22
    where R: "R = mat3 (vec3 a00 a01 a02) (vec3 a10 a11 a12) (vec3 a20 a21 a22)"
    by (rule mat3_entries)
  show ?thesis
    unfolding R Adjoint3x3_eval Transpose3_eval mat3_mul_eval mat3_scale_eval det3_eval
    by (simp add: algebra_simps)
qed

lemma mat3_mul_diag_1: "mat3_mul M (mat3_diag 1) = M"
proof -
  obtain a00 a01 a02 a10 a11 a12 a20 a21 a22
    where M: "M = mat3 (vec3 a00 a01 a02) (vec3 a10 a11 a12) (vec3 a20 a21 a22)"
    by (rule mat3_entries)
  show ?thesis
    unfolding M mat3_diag_def mat3_mul_eval by simp
qed

lemma mat3_scale_1: "mat3_scale M 1 = M"
proof -
  obtain a00 a01 a02 a10 a11 a12 a20 a21 a22
    where M: "M = mat3 (vec3 a00 a01 a02) (vec3 a10 a11 a12) (vec3 a20 a21 a22)"
    by (rule mat3_entries)
  show ?thesis
    unfolding M mat3_scale_eval by simp
qed

lemma pure_rotation_Adjoint3x3:
  assumes "pure_rotation R"
  shows "Adjoint3x3 R = Transpose3 R"
proof -
  have "Adjoint3x3 R = mat3_mul (Adjoint3x3 R) (mat3_mul R (Transpose3 R))"
    using assms by (simp add: pure_rotation_def mat3_mul_diag_1)
  also have "\<dots> = mat3_scale (Transpose3 R) (det3 R)"
    by (rule mul_Adjoint3x3_mul_Transpose3)
  also have "\<dots> = Transpose3 R"
    using assms by (simp add: pure_rotation_def mat3_scale_1)
  finally show ?thesis .
qed

lemma pure_rotation_columns:
  assumes "pure_rotation R"
  shows "mat3_mul (Transpose3 R) R = mat3_diag 1"
proof -
  have "mat3_mul (Transpose3 R) R = mat3_mul (Adjoint3x3 R) R"
    by (simp only: pure_rotation_Adjoint3x3 [OF assms])
  also have "\<dots> = mat3_diag (det3 R)"
    by (rule mul_Adjoint3x3_left)
  finally show ?thesis
    using assms by (simp add: pure_rotation_def)
qed

text \<open>
  In entries: the rows and the columns of a pure rotation are orthonormal, and every
  entry is its own cofactor.
\<close>

lemma pure_rotation_rows:
  fixes a00 a01 a02 a10 a11 a12 a20 a21 a22 :: real
  assumes "pure_rotation (mat3 (vec3 a00 a01 a02) (vec3 a10 a11 a12) (vec3 a20 a21 a22))"
  shows row00: "a00 * a00 + a01 * a01 + a02 * a02 = 1"
    and row01: "a00 * a10 + a01 * a11 + a02 * a12 = 0"
    and row02: "a00 * a20 + a01 * a21 + a02 * a22 = 0"
    and row11: "a10 * a10 + a11 * a11 + a12 * a12 = 1"
    and row12: "a10 * a20 + a11 * a21 + a12 * a22 = 0"
    and row22: "a20 * a20 + a21 * a21 + a22 * a22 = 1"
  using assms
  by (simp_all add: pure_rotation_def Transpose3_eval mat3_mul_eval mat3_diag_def algebra_simps)

lemma pure_rotation_cols:
  fixes a00 a01 a02 a10 a11 a12 a20 a21 a22 :: real
  assumes "pure_rotation (mat3 (vec3 a00 a01 a02) (vec3 a10 a11 a12) (vec3 a20 a21 a22))"
  shows col00: "a00 * a00 + a10 * a10 + a20 * a20 = 1"
    and col01: "a00 * a01 + a10 * a11 + a20 * a21 = 0"
    and col02: "a00 * a02 + a10 * a12 + a20 * a22 = 0"
    and col11: "a01 * a01 + a11 * a11 + a21 * a21 = 1"
    and col12: "a01 * a02 + a11 * a12 + a21 * a22 = 0"
    and col22: "a02 * a02 + a12 * a12 + a22 * a22 = 1"
  using pure_rotation_columns [OF assms]
  by (simp_all add: Transpose3_eval mat3_mul_eval mat3_diag_def algebra_simps)

lemma pure_rotation_cofactors:
  fixes a00 a01 a02 a10 a11 a12 a20 a21 a22 :: real
  assumes "pure_rotation (mat3 (vec3 a00 a01 a02) (vec3 a10 a11 a12) (vec3 a20 a21 a22))"
  shows cof00: "a11 * a22 - a12 * a21 = a00"
    and cof01: "- (a01 * a22 - a02 * a21) = a10"
    and cof02: "a01 * a12 - a02 * a11 = a20"
    and cof10: "- (a10 * a22 - a12 * a20) = a01"
    and cof11: "a00 * a22 - a02 * a20 = a11"
    and cof12: "- (a00 * a12 - a02 * a10) = a21"
    and cof20: "a10 * a21 - a11 * a20 = a02"
    and cof21: "- (a00 * a21 - a01 * a20) = a12"
    and cof22: "a00 * a11 - a01 * a10 = a22"
  using pure_rotation_Adjoint3x3 [OF assms]
  by (simp_all add: Transpose3_eval Adjoint3x3_eval)

lemma pivot_w_identities:
  fixes a00 a01 a02 a10 a11 a12 a20 a21 a22 :: real
  assumes R: "pure_rotation (mat3 (vec3 a00 a01 a02) (vec3 a10 a11 a12) (vec3 a20 a21 a22))"
  shows "(a21 - a12) * (a21 - a12) = (1 + a00 + a11 + a22) * (1 + a00 - a11 - a22)"
    and "(a21 - a12) * (a02 - a20) = (1 + a00 + a11 + a22) * (a01 + a10)"
    and "(a21 - a12) * (a10 - a01) = (1 + a00 + a11 + a22) * (a02 + a20)"
    and "(a02 - a20) * (a02 - a20) = (1 + a00 + a11 + a22) * (1 - a00 + a11 - a22)"
    and "(a02 - a20) * (a10 - a01) = (1 + a00 + a11 + a22) * (a12 + a21)"
    and "(a10 - a01) * (a10 - a01) = (1 + a00 + a11 + a22) * (1 - a00 - a11 + a22)"
proof -
  note rows = pure_rotation_rows [OF R]
  note cols = pure_rotation_cols [OF R]
  note cofs = pure_rotation_cofactors [OF R]
  note cof00 = cofs(1)
  note cof01 = cofs(2)
  note cof02 = cofs(3)
  note cof10 = cofs(4)
  note cof11 = cofs(5)
  note cof12 = cofs(6)
  note cof20 = cofs(7)
  note cof21 = cofs(8)
  note cof22 = cofs(9)
  note col00 = cols(1)
  note col01 = cols(2)
  note col02 = cols(3)
  note col11 = cols(4)
  note col12 = cols(5)
  note row00 = rows(1)
  note row01 = rows(2)
  note row02 = rows(3)
  note row11 = rows(4)
  note row12 = rows(5)
  note row22 = rows(6)
  have "(a21 - a12) * (a21 - a12) - (1 + a00 + a11 + a22) * (1 + a00 - a11 - a22) =
      2 * ((a11 * a22 - a12 * a21) - a00)
      + (-1) * ((a00 * a00 + a10 * a10 + a20 * a20) - 1)
      + 1 * ((a10 * a10 + a11 * a11 + a12 * a12) - 1)
      + 1 * ((a20 * a20 + a21 * a21 + a22 * a22) - 1)"
    by (simp add: algebra_simps)
  also have "\<dots> = 0"
    by (simp only: cof00 col00 row11 row22) simp
  finally show "(a21 - a12) * (a21 - a12) = (1 + a00 + a11 + a22) * (1 + a00 - a11 - a22)"
    by simp
  have "(a21 - a12) * (a02 - a20) - (1 + a00 + a11 + a22) * (a01 + a10) =
      1 * ((- (a01 * a22 - a02 * a21)) - a10)
      + 1 * ((- (a10 * a22 - a12 * a20)) - a01)
      + (-1) * ((a00 * a01 + a10 * a11 + a20 * a21) - 0)
      + (-1) * ((a00 * a10 + a01 * a11 + a02 * a12) - 0)"
    by (simp add: algebra_simps)
  also have "\<dots> = 0"
    by (simp only: cof01 cof10 col01 row01) simp
  finally show "(a21 - a12) * (a02 - a20) = (1 + a00 + a11 + a22) * (a01 + a10)"
    by simp
  have "(a21 - a12) * (a10 - a01) - (1 + a00 + a11 + a22) * (a02 + a20) =
      1 * ((a01 * a12 - a02 * a11) - a20)
      + 1 * ((a10 * a21 - a11 * a20) - a02)
      + (-1) * ((a00 * a02 + a10 * a12 + a20 * a22) - 0)
      + (-1) * ((a00 * a20 + a01 * a21 + a02 * a22) - 0)"
    by (simp add: algebra_simps)
  also have "\<dots> = 0"
    by (simp only: cof02 cof20 col02 row02) simp
  finally show "(a21 - a12) * (a10 - a01) = (1 + a00 + a11 + a22) * (a02 + a20)"
    by simp
  have "(a02 - a20) * (a02 - a20) - (1 + a00 + a11 + a22) * (1 - a00 + a11 - a22) =
      2 * ((a00 * a22 - a02 * a20) - a11)
      + (-1) * ((a01 * a01 + a11 * a11 + a21 * a21) - 1)
      + 1 * ((a00 * a00 + a01 * a01 + a02 * a02) - 1)
      + 1 * ((a20 * a20 + a21 * a21 + a22 * a22) - 1)"
    by (simp add: algebra_simps)
  also have "\<dots> = 0"
    by (simp only: cof11 col11 row00 row22) simp
  finally show "(a02 - a20) * (a02 - a20) = (1 + a00 + a11 + a22) * (1 - a00 + a11 - a22)"
    by simp
  have "(a02 - a20) * (a10 - a01) - (1 + a00 + a11 + a22) * (a12 + a21) =
      1 * ((- (a00 * a12 - a02 * a10)) - a21)
      + 1 * ((- (a00 * a21 - a01 * a20)) - a12)
      + (-1) * ((a01 * a02 + a11 * a12 + a21 * a22) - 0)
      + (-1) * ((a10 * a20 + a11 * a21 + a12 * a22) - 0)"
    by (simp add: algebra_simps)
  also have "\<dots> = 0"
    by (simp only: cof12 cof21 col12 row12) simp
  finally show "(a02 - a20) * (a10 - a01) = (1 + a00 + a11 + a22) * (a12 + a21)"
    by simp
  have "(a10 - a01) * (a10 - a01) - (1 + a00 + a11 + a22) * (1 - a00 - a11 + a22) =
      2 * ((a00 * a11 - a01 * a10) - a22)
      + 1 * ((a00 * a00 + a10 * a10 + a20 * a20) - 1)
      + 1 * ((a01 * a01 + a11 * a11 + a21 * a21) - 1)
      + (-1) * ((a20 * a20 + a21 * a21 + a22 * a22) - 1)"
    by (simp add: algebra_simps)
  also have "\<dots> = 0"
    by (simp only: cof22 col00 col11 row22) simp
  finally show "(a10 - a01) * (a10 - a01) = (1 + a00 + a11 + a22) * (1 - a00 - a11 + a22)"
    by simp
qed

lemma pivot_x_identities:
  fixes a00 a01 a02 a10 a11 a12 a20 a21 a22 :: real
  assumes R: "pure_rotation (mat3 (vec3 a00 a01 a02) (vec3 a10 a11 a12) (vec3 a20 a21 a22))"
  shows "(a01 + a10) * (a01 + a10) = (1 + a00 - a11 - a22) * (1 - a00 + a11 - a22)"
    and "(a01 + a10) * (a02 + a20) = (1 + a00 - a11 - a22) * (a12 + a21)"
    and "(a01 + a10) * (a21 - a12) = (1 + a00 - a11 - a22) * (a02 - a20)"
    and "(a02 + a20) * (a02 + a20) = (1 + a00 - a11 - a22) * (1 - a00 - a11 + a22)"
    and "(a02 + a20) * (a21 - a12) = (1 + a00 - a11 - a22) * (a10 - a01)"
    and "(a21 - a12) * (a21 - a12) = (1 + a00 - a11 - a22) * (1 + a00 + a11 + a22)"
proof -
  note rows = pure_rotation_rows [OF R]
  note cols = pure_rotation_cols [OF R]
  note cofs = pure_rotation_cofactors [OF R]
  note cof00 = cofs(1)
  note cof01 = cofs(2)
  note cof02 = cofs(3)
  note cof10 = cofs(4)
  note cof11 = cofs(5)
  note cof12 = cofs(6)
  note cof20 = cofs(7)
  note cof21 = cofs(8)
  note cof22 = cofs(9)
  note col00 = cols(1)
  note col01 = cols(2)
  note col02 = cols(3)
  note col11 = cols(4)
  note col12 = cols(5)
  note row00 = rows(1)
  note row01 = rows(2)
  note row02 = rows(3)
  note row11 = rows(4)
  note row12 = rows(5)
  note row22 = rows(6)
  have "(a01 + a10) * (a01 + a10) - (1 + a00 - a11 - a22) * (1 - a00 + a11 - a22) =
      (-2) * ((a00 * a11 - a01 * a10) - a22)
      + 1 * ((a00 * a00 + a10 * a10 + a20 * a20) - 1)
      + 1 * ((a01 * a01 + a11 * a11 + a21 * a21) - 1)
      + (-1) * ((a20 * a20 + a21 * a21 + a22 * a22) - 1)"
    by (simp add: algebra_simps)
  also have "\<dots> = 0"
    by (simp only: cof22 col00 col11 row22) simp
  finally show "(a01 + a10) * (a01 + a10) = (1 + a00 - a11 - a22) * (1 - a00 + a11 - a22)"
    by simp
  have "(a01 + a10) * (a02 + a20) - (1 + a00 - a11 - a22) * (a12 + a21) =
      1 * ((- (a00 * a12 - a02 * a10)) - a21)
      + 1 * ((- (a00 * a21 - a01 * a20)) - a12)
      + 1 * ((a01 * a02 + a11 * a12 + a21 * a22) - 0)
      + 1 * ((a10 * a20 + a11 * a21 + a12 * a22) - 0)"
    by (simp add: algebra_simps)
  also have "\<dots> = 0"
    by (simp only: cof12 cof21 col12 row12) simp
  finally show "(a01 + a10) * (a02 + a20) = (1 + a00 - a11 - a22) * (a12 + a21)"
    by simp
  have "(a01 + a10) * (a21 - a12) - (1 + a00 - a11 - a22) * (a02 - a20) =
      (-1) * ((a01 * a12 - a02 * a11) - a20)
      + 1 * ((a10 * a21 - a11 * a20) - a02)
      + (-1) * ((a00 * a02 + a10 * a12 + a20 * a22) - 0)
      + 1 * ((a00 * a20 + a01 * a21 + a02 * a22) - 0)"
    by (simp add: algebra_simps)
  also have "\<dots> = 0"
    by (simp only: cof02 cof20 col02 row02) simp
  finally show "(a01 + a10) * (a21 - a12) = (1 + a00 - a11 - a22) * (a02 - a20)"
    by simp
  have "(a02 + a20) * (a02 + a20) - (1 + a00 - a11 - a22) * (1 - a00 - a11 + a22) =
      (-2) * ((a00 * a22 - a02 * a20) - a11)
      + (-1) * ((a01 * a01 + a11 * a11 + a21 * a21) - 1)
      + 1 * ((a00 * a00 + a01 * a01 + a02 * a02) - 1)
      + 1 * ((a20 * a20 + a21 * a21 + a22 * a22) - 1)"
    by (simp add: algebra_simps)
  also have "\<dots> = 0"
    by (simp only: cof11 col11 row00 row22) simp
  finally show "(a02 + a20) * (a02 + a20) = (1 + a00 - a11 - a22) * (1 - a00 - a11 + a22)"
    by simp
  have "(a02 + a20) * (a21 - a12) - (1 + a00 - a11 - a22) * (a10 - a01) =
      1 * ((- (a01 * a22 - a02 * a21)) - a10)
      + (-1) * ((- (a10 * a22 - a12 * a20)) - a01)
      + 1 * ((a00 * a01 + a10 * a11 + a20 * a21) - 0)
      + (-1) * ((a00 * a10 + a01 * a11 + a02 * a12) - 0)"
    by (simp add: algebra_simps)
  also have "\<dots> = 0"
    by (simp only: cof01 cof10 col01 row01) simp
  finally show "(a02 + a20) * (a21 - a12) = (1 + a00 - a11 - a22) * (a10 - a01)"
    by simp
  have "(a21 - a12) * (a21 - a12) - (1 + a00 - a11 - a22) * (1 + a00 + a11 + a22) =
      2 * ((a11 * a22 - a12 * a21) - a00)
      + (-1) * ((a00 * a00 + a10 * a10 + a20 * a20) - 1)
      + 1 * ((a10 * a10 + a11 * a11 + a12 * a12) - 1)
      + 1 * ((a20 * a20 + a21 * a21 + a22 * a22) - 1)"
    by (simp add: algebra_simps)
  also have "\<dots> = 0"
    by (simp only: cof00 col00 row11 row22) simp
  finally show "(a21 - a12) * (a21 - a12) = (1 + a00 - a11 - a22) * (1 + a00 + a11 + a22)"
    by simp
qed

lemma pivot_y_identities:
  fixes a00 a01 a02 a10 a11 a12 a20 a21 a22 :: real
  assumes R: "pure_rotation (mat3 (vec3 a00 a01 a02) (vec3 a10 a11 a12) (vec3 a20 a21 a22))"
  shows "(a01 + a10) * (a01 + a10) = (1 - a00 + a11 - a22) * (1 + a00 - a11 - a22)"
    and "(a01 + a10) * (a12 + a21) = (1 - a00 + a11 - a22) * (a02 + a20)"
    and "(a01 + a10) * (a02 - a20) = (1 - a00 + a11 - a22) * (a21 - a12)"
    and "(a12 + a21) * (a12 + a21) = (1 - a00 + a11 - a22) * (1 - a00 - a11 + a22)"
    and "(a12 + a21) * (a02 - a20) = (1 - a00 + a11 - a22) * (a10 - a01)"
    and "(a02 - a20) * (a02 - a20) = (1 - a00 + a11 - a22) * (1 + a00 + a11 + a22)"
proof -
  note rows = pure_rotation_rows [OF R]
  note cols = pure_rotation_cols [OF R]
  note cofs = pure_rotation_cofactors [OF R]
  note cof00 = cofs(1)
  note cof01 = cofs(2)
  note cof02 = cofs(3)
  note cof10 = cofs(4)
  note cof11 = cofs(5)
  note cof12 = cofs(6)
  note cof20 = cofs(7)
  note cof21 = cofs(8)
  note cof22 = cofs(9)
  note col00 = cols(1)
  note col01 = cols(2)
  note col02 = cols(3)
  note col11 = cols(4)
  note col12 = cols(5)
  note row00 = rows(1)
  note row01 = rows(2)
  note row02 = rows(3)
  note row11 = rows(4)
  note row12 = rows(5)
  note row22 = rows(6)
  have "(a01 + a10) * (a01 + a10) - (1 - a00 + a11 - a22) * (1 + a00 - a11 - a22) =
      (-2) * ((a00 * a11 - a01 * a10) - a22)
      + 1 * ((a00 * a00 + a10 * a10 + a20 * a20) - 1)
      + 1 * ((a01 * a01 + a11 * a11 + a21 * a21) - 1)
      + (-1) * ((a20 * a20 + a21 * a21 + a22 * a22) - 1)"
    by (simp add: algebra_simps)
  also have "\<dots> = 0"
    by (simp only: cof22 col00 col11 row22) simp
  finally show "(a01 + a10) * (a01 + a10) = (1 - a00 + a11 - a22) * (1 + a00 - a11 - a22)"
    by simp
  have "(a01 + a10) * (a12 + a21) - (1 - a00 + a11 - a22) * (a02 + a20) =
      1 * ((a01 * a12 - a02 * a11) - a20)
      + 1 * ((a10 * a21 - a11 * a20) - a02)
      + 1 * ((a00 * a02 + a10 * a12 + a20 * a22) - 0)
      + 1 * ((a00 * a20 + a01 * a21 + a02 * a22) - 0)"
    by (simp add: algebra_simps)
  also have "\<dots> = 0"
    by (simp only: cof02 cof20 col02 row02) simp
  finally show "(a01 + a10) * (a12 + a21) = (1 - a00 + a11 - a22) * (a02 + a20)"
    by simp
  have "(a01 + a10) * (a02 - a20) - (1 - a00 + a11 - a22) * (a21 - a12) =
      1 * ((- (a00 * a12 - a02 * a10)) - a21)
      + (-1) * ((- (a00 * a21 - a01 * a20)) - a12)
      + 1 * ((a01 * a02 + a11 * a12 + a21 * a22) - 0)
      + (-1) * ((a10 * a20 + a11 * a21 + a12 * a22) - 0)"
    by (simp add: algebra_simps)
  also have "\<dots> = 0"
    by (simp only: cof12 cof21 col12 row12) simp
  finally show "(a01 + a10) * (a02 - a20) = (1 - a00 + a11 - a22) * (a21 - a12)"
    by simp
  have "(a12 + a21) * (a12 + a21) - (1 - a00 + a11 - a22) * (1 - a00 - a11 + a22) =
      (-2) * ((a11 * a22 - a12 * a21) - a00)
      + (-1) * ((a00 * a00 + a10 * a10 + a20 * a20) - 1)
      + 1 * ((a10 * a10 + a11 * a11 + a12 * a12) - 1)
      + 1 * ((a20 * a20 + a21 * a21 + a22 * a22) - 1)"
    by (simp add: algebra_simps)
  also have "\<dots> = 0"
    by (simp only: cof00 col00 row11 row22) simp
  finally show "(a12 + a21) * (a12 + a21) = (1 - a00 + a11 - a22) * (1 - a00 - a11 + a22)"
    by simp
  have "(a12 + a21) * (a02 - a20) - (1 - a00 + a11 - a22) * (a10 - a01) =
      1 * ((- (a01 * a22 - a02 * a21)) - a10)
      + (-1) * ((- (a10 * a22 - a12 * a20)) - a01)
      + (-1) * ((a00 * a01 + a10 * a11 + a20 * a21) - 0)
      + 1 * ((a00 * a10 + a01 * a11 + a02 * a12) - 0)"
    by (simp add: algebra_simps)
  also have "\<dots> = 0"
    by (simp only: cof01 cof10 col01 row01) simp
  finally show "(a12 + a21) * (a02 - a20) = (1 - a00 + a11 - a22) * (a10 - a01)"
    by simp
  have "(a02 - a20) * (a02 - a20) - (1 - a00 + a11 - a22) * (1 + a00 + a11 + a22) =
      2 * ((a00 * a22 - a02 * a20) - a11)
      + (-1) * ((a01 * a01 + a11 * a11 + a21 * a21) - 1)
      + 1 * ((a00 * a00 + a01 * a01 + a02 * a02) - 1)
      + 1 * ((a20 * a20 + a21 * a21 + a22 * a22) - 1)"
    by (simp add: algebra_simps)
  also have "\<dots> = 0"
    by (simp only: cof11 col11 row00 row22) simp
  finally show "(a02 - a20) * (a02 - a20) = (1 - a00 + a11 - a22) * (1 + a00 + a11 + a22)"
    by simp
qed

lemma pivot_z_identities:
  fixes a00 a01 a02 a10 a11 a12 a20 a21 a22 :: real
  assumes R: "pure_rotation (mat3 (vec3 a00 a01 a02) (vec3 a10 a11 a12) (vec3 a20 a21 a22))"
  shows "(a02 + a20) * (a02 + a20) = (1 - a00 - a11 + a22) * (1 + a00 - a11 - a22)"
    and "(a02 + a20) * (a12 + a21) = (1 - a00 - a11 + a22) * (a01 + a10)"
    and "(a02 + a20) * (a10 - a01) = (1 - a00 - a11 + a22) * (a21 - a12)"
    and "(a12 + a21) * (a12 + a21) = (1 - a00 - a11 + a22) * (1 - a00 + a11 - a22)"
    and "(a12 + a21) * (a10 - a01) = (1 - a00 - a11 + a22) * (a02 - a20)"
    and "(a10 - a01) * (a10 - a01) = (1 - a00 - a11 + a22) * (1 + a00 + a11 + a22)"
proof -
  note rows = pure_rotation_rows [OF R]
  note cols = pure_rotation_cols [OF R]
  note cofs = pure_rotation_cofactors [OF R]
  note cof00 = cofs(1)
  note cof01 = cofs(2)
  note cof02 = cofs(3)
  note cof10 = cofs(4)
  note cof11 = cofs(5)
  note cof12 = cofs(6)
  note cof20 = cofs(7)
  note cof21 = cofs(8)
  note cof22 = cofs(9)
  note col00 = cols(1)
  note col01 = cols(2)
  note col02 = cols(3)
  note col11 = cols(4)
  note col12 = cols(5)
  note row00 = rows(1)
  note row01 = rows(2)
  note row02 = rows(3)
  note row11 = rows(4)
  note row12 = rows(5)
  note row22 = rows(6)
  have "(a02 + a20) * (a02 + a20) - (1 - a00 - a11 + a22) * (1 + a00 - a11 - a22) =
      (-2) * ((a00 * a22 - a02 * a20) - a11)
      + (-1) * ((a01 * a01 + a11 * a11 + a21 * a21) - 1)
      + 1 * ((a00 * a00 + a01 * a01 + a02 * a02) - 1)
      + 1 * ((a20 * a20 + a21 * a21 + a22 * a22) - 1)"
    by (simp add: algebra_simps)
  also have "\<dots> = 0"
    by (simp only: cof11 col11 row00 row22) simp
  finally show "(a02 + a20) * (a02 + a20) = (1 - a00 - a11 + a22) * (1 + a00 - a11 - a22)"
    by simp
  have "(a02 + a20) * (a12 + a21) - (1 - a00 - a11 + a22) * (a01 + a10) =
      1 * ((- (a01 * a22 - a02 * a21)) - a10)
      + 1 * ((- (a10 * a22 - a12 * a20)) - a01)
      + 1 * ((a00 * a01 + a10 * a11 + a20 * a21) - 0)
      + 1 * ((a00 * a10 + a01 * a11 + a02 * a12) - 0)"
    by (simp add: algebra_simps)
  also have "\<dots> = 0"
    by (simp only: cof01 cof10 col01 row01) simp
  finally show "(a02 + a20) * (a12 + a21) = (1 - a00 - a11 + a22) * (a01 + a10)"
    by simp
  have "(a02 + a20) * (a10 - a01) - (1 - a00 - a11 + a22) * (a21 - a12) =
      1 * ((- (a00 * a12 - a02 * a10)) - a21)
      + (-1) * ((- (a00 * a21 - a01 * a20)) - a12)
      + (-1) * ((a01 * a02 + a11 * a12 + a21 * a22) - 0)
      + 1 * ((a10 * a20 + a11 * a21 + a12 * a22) - 0)"
    by (simp add: algebra_simps)
  also have "\<dots> = 0"
    by (simp only: cof12 cof21 col12 row12) simp
  finally show "(a02 + a20) * (a10 - a01) = (1 - a00 - a11 + a22) * (a21 - a12)"
    by simp
  have "(a12 + a21) * (a12 + a21) - (1 - a00 - a11 + a22) * (1 - a00 + a11 - a22) =
      (-2) * ((a11 * a22 - a12 * a21) - a00)
      + (-1) * ((a00 * a00 + a10 * a10 + a20 * a20) - 1)
      + 1 * ((a10 * a10 + a11 * a11 + a12 * a12) - 1)
      + 1 * ((a20 * a20 + a21 * a21 + a22 * a22) - 1)"
    by (simp add: algebra_simps)
  also have "\<dots> = 0"
    by (simp only: cof00 col00 row11 row22) simp
  finally show "(a12 + a21) * (a12 + a21) = (1 - a00 - a11 + a22) * (1 - a00 + a11 - a22)"
    by simp
  have "(a12 + a21) * (a10 - a01) - (1 - a00 - a11 + a22) * (a02 - a20) =
      (-1) * ((a01 * a12 - a02 * a11) - a20)
      + 1 * ((a10 * a21 - a11 * a20) - a02)
      + 1 * ((a00 * a02 + a10 * a12 + a20 * a22) - 0)
      + (-1) * ((a00 * a20 + a01 * a21 + a02 * a22) - 0)"
    by (simp add: algebra_simps)
  also have "\<dots> = 0"
    by (simp only: cof02 cof20 col02 row02) simp
  finally show "(a12 + a21) * (a10 - a01) = (1 - a00 - a11 + a22) * (a02 - a20)"
    by simp
  have "(a10 - a01) * (a10 - a01) - (1 - a00 - a11 + a22) * (1 + a00 + a11 + a22) =
      2 * ((a00 * a11 - a01 * a10) - a22)
      + 1 * ((a00 * a00 + a10 * a10 + a20 * a20) - 1)
      + 1 * ((a01 * a01 + a11 * a11 + a21 * a21) - 1)
      + (-1) * ((a20 * a20 + a21 * a21 + a22 * a22) - 1)"
    by (simp add: algebra_simps)
  also have "\<dots> = 0"
    by (simp only: cof22 col00 col11 row22) simp
  finally show "(a10 - a01) * (a10 - a01) = (1 - a00 - a11 + a22) * (1 + a00 + a11 + a22)"
    by simp
qed

subsection \<open>From a rotation matrix to a quaternion and back\<close>

lemma Quaternion_sel [simp]:
  "Quaternion.x (Quaternion a b c d) = a" "Quaternion.y (Quaternion a b c d) = b"
  "Quaternion.z (Quaternion a b c d) = c" "Quaternion.w (Quaternion a b c d) = d"
  by (simp_all add: Quaternion_def)

lemma Quaternion_eq_iff [simp]:
  "Quaternion a b c d = Quaternion a' b' c' d' \<longleftrightarrow> a = a' \<and> b = b' \<and> c = c' \<and> d = d'"
  by (simp add: Quaternion_def)


text \<open>
  The pivot of a branch is the component computed by the square root, \<open>sqrt (P/4)\<close>; the
  other components are numerators times \<open>s = 0.25 / pivot\<close>.
\<close>

lemma pivot_square:
  fixes P :: real
  assumes "0 < P"
  shows "sqrt (0.25 * P) * sqrt (0.25 * P) = P / 4"
  using assms by simp

lemma pivot_times:
  fixes P A :: real
  assumes "0 < P"
  shows "sqrt (0.25 * P) * (A * (0.25 / sqrt (0.25 * P))) = A / 4"
    and "A * (0.25 / sqrt (0.25 * P)) * sqrt (0.25 * P) = A / 4"
proof -
  have "sqrt (0.25 * P) \<noteq> 0" using assms by simp
  then show "sqrt (0.25 * P) * (A * (0.25 / sqrt (0.25 * P))) = A / 4"
    and "A * (0.25 / sqrt (0.25 * P)) * sqrt (0.25 * P) = A / 4"
    by (simp_all add: field_simps)
qed

lemma pivot_others:
  fixes P A B C :: real
  assumes P: "0 < P" and AB: "A * B = P * C"
  shows "A * (0.25 / sqrt (0.25 * P)) * (B * (0.25 / sqrt (0.25 * P))) = C / 4"
proof -
  have r: "sqrt (0.25 * P) * sqrt (0.25 * P) = P / 4"
    by (rule pivot_square [OF P])
  have n: "sqrt (0.25 * P) \<noteq> 0" using P by simp
  have "A * (0.25 / sqrt (0.25 * P)) * (B * (0.25 / sqrt (0.25 * P))) =
        (A * B) * (0.0625 / (sqrt (0.25 * P) * sqrt (0.25 * P)))"
    using n by (simp add: field_simps)
  also have "\<dots> = (P * C) * (0.0625 / (P / 4))"
    by (simp only: AB r)
  also have "\<dots> = C / 4"
    using P by (simp add: field_simps)
  finally show ?thesis .
qed

lemma pivot_others':
  fixes P A B C :: real
  assumes P: "0 < P" and BA: "B * A = P * C"
  shows "A * (0.25 / sqrt (0.25 * P)) * (B * (0.25 / sqrt (0.25 * P))) = C / 4"
proof -
  have "A * B = P * C" using BA by (simp add: mult.commute)
  then show ?thesis by (rule pivot_others [OF P])
qed

text \<open>
  \<open>Get3x3\<close> depends on the quaternion through the ten products of two components. Where
  they are the ones a rotation matrix determines, \<open>Get3x3\<close> builds the transposed
  matrix.
\<close>

lemma Get3x3_of_products:
  fixes qx qy qz qw a00 a01 a02 a10 a11 a12 a20 a21 a22 :: real
  assumes xx: "qx * qx = (1 + a00 - a11 - a22) / 4"
    and yy: "qy * qy = (1 - a00 + a11 - a22) / 4"
    and zz: "qz * qz = (1 - a00 - a11 + a22) / 4"
    and ww: "qw * qw = (1 + a00 + a11 + a22) / 4"
    and xy: "qx * qy = (a01 + a10) / 4"
    and xz: "qx * qz = (a02 + a20) / 4"
    and yz: "qy * qz = (a12 + a21) / 4"
    and wx: "qw * qx = (a21 - a12) / 4"
    and wy: "qw * qy = (a02 - a20) / 4"
    and wz: "qw * qz = (a10 - a01) / 4"
  shows "Get3x3 (Quaternion qx qy qz qw) = mat3 (vec3 a00 a10 a20) (vec3 a01 a11 a21) (vec3 a02 a12 a22)"
proof -
  have n: "Norm (Quaternion qx qy qz qw) = 1"
    by (simp only: Norm_def Quaternion_sel xx yy zz ww) (simp add: field_simps)
  have g: "Get3x3 (Quaternion qx qy qz qw) =
     mat3 (vec3 (1 - (qy * (qy * 2) + qz * (qz * 2))) (qx * (qy * 2) + qw * (qz * 2))
                (qx * (qz * 2) - qw * (qy * 2)))
          (vec3 (qx * (qy * 2) - qw * (qz * 2)) (1 - (qx * (qx * 2) + qz * (qz * 2)))
                (qy * (qz * 2) + qw * (qx * 2)))
          (vec3 (qx * (qz * 2) + qw * (qy * 2)) (qy * (qz * 2) - qw * (qx * 2))
                (1 - (qx * (qx * 2) + qy * (qy * 2))))"
    by (simp add: Get3x3_def Let_def n FLT_EPSILON_def)
  have d: "u * (v * 2) = 2 * (u * v)" for u v :: real
    by simp
  show ?thesis
    unfolding g by (simp only: d xx yy zz ww xy xz yz wx wy wz) (simp add: field_simps)
qed

lemma Get3x3_pivot_w:
  fixes a00 a01 a02 a10 a11 a12 a20 a21 a22 :: real
  assumes R: "pure_rotation (mat3 (vec3 a00 a01 a02) (vec3 a10 a11 a12) (vec3 a20 a21 a22))"
    and P: "0 < 1 + a00 + a11 + a22"
  shows "Get3x3 (Quaternion ((a21 - a12) * (0.25 / sqrt (0.25 * (1 + a00 + a11 + a22))))
                            ((a02 - a20) * (0.25 / sqrt (0.25 * (1 + a00 + a11 + a22))))
                            ((a10 - a01) * (0.25 / sqrt (0.25 * (1 + a00 + a11 + a22))))
                            (sqrt (0.25 * (1 + a00 + a11 + a22)))) =
         mat3 (vec3 a00 a10 a20) (vec3 a01 a11 a21) (vec3 a02 a12 a22)"
proof (rule Get3x3_of_products)
  note id = pivot_w_identities [OF R]
  show "(a21 - a12) * (0.25 / sqrt (0.25 * (1 + a00 + a11 + a22))) * ((a21 - a12) * (0.25 / sqrt (0.25 * (1 + a00 + a11 + a22)))) = (1 + a00 - a11 - a22) / 4"
    by (rule pivot_others [OF P id(1)])
  show "(a02 - a20) * (0.25 / sqrt (0.25 * (1 + a00 + a11 + a22))) * ((a02 - a20) * (0.25 / sqrt (0.25 * (1 + a00 + a11 + a22)))) = (1 - a00 + a11 - a22) / 4"
    by (rule pivot_others [OF P id(4)])
  show "(a10 - a01) * (0.25 / sqrt (0.25 * (1 + a00 + a11 + a22))) * ((a10 - a01) * (0.25 / sqrt (0.25 * (1 + a00 + a11 + a22)))) = (1 - a00 - a11 + a22) / 4"
    by (rule pivot_others [OF P id(6)])
  show "sqrt (0.25 * (1 + a00 + a11 + a22)) * sqrt (0.25 * (1 + a00 + a11 + a22)) = (1 + a00 + a11 + a22) / 4"
    by (rule pivot_square [OF P])
  show "(a21 - a12) * (0.25 / sqrt (0.25 * (1 + a00 + a11 + a22))) * ((a02 - a20) * (0.25 / sqrt (0.25 * (1 + a00 + a11 + a22)))) = (a01 + a10) / 4"
    by (rule pivot_others [OF P id(2)])
  show "(a21 - a12) * (0.25 / sqrt (0.25 * (1 + a00 + a11 + a22))) * ((a10 - a01) * (0.25 / sqrt (0.25 * (1 + a00 + a11 + a22)))) = (a02 + a20) / 4"
    by (rule pivot_others [OF P id(3)])
  show "(a02 - a20) * (0.25 / sqrt (0.25 * (1 + a00 + a11 + a22))) * ((a10 - a01) * (0.25 / sqrt (0.25 * (1 + a00 + a11 + a22)))) = (a12 + a21) / 4"
    by (rule pivot_others [OF P id(5)])
  show "sqrt (0.25 * (1 + a00 + a11 + a22)) * ((a21 - a12) * (0.25 / sqrt (0.25 * (1 + a00 + a11 + a22)))) = (a21 - a12) / 4"
    by (rule pivot_times(1) [OF P])
  show "sqrt (0.25 * (1 + a00 + a11 + a22)) * ((a02 - a20) * (0.25 / sqrt (0.25 * (1 + a00 + a11 + a22)))) = (a02 - a20) / 4"
    by (rule pivot_times(1) [OF P])
  show "sqrt (0.25 * (1 + a00 + a11 + a22)) * ((a10 - a01) * (0.25 / sqrt (0.25 * (1 + a00 + a11 + a22)))) = (a10 - a01) / 4"
    by (rule pivot_times(1) [OF P])
qed

lemma Get3x3_pivot_x:
  fixes a00 a01 a02 a10 a11 a12 a20 a21 a22 :: real
  assumes R: "pure_rotation (mat3 (vec3 a00 a01 a02) (vec3 a10 a11 a12) (vec3 a20 a21 a22))"
    and P: "0 < 1 + a00 - a11 - a22"
  shows "Get3x3 (Quaternion (sqrt (0.25 * (1 + a00 - a11 - a22)))
                            ((a01 + a10) * (0.25 / sqrt (0.25 * (1 + a00 - a11 - a22))))
                            ((a02 + a20) * (0.25 / sqrt (0.25 * (1 + a00 - a11 - a22))))
                            ((a21 - a12) * (0.25 / sqrt (0.25 * (1 + a00 - a11 - a22))))) =
         mat3 (vec3 a00 a10 a20) (vec3 a01 a11 a21) (vec3 a02 a12 a22)"
proof (rule Get3x3_of_products)
  note id = pivot_x_identities [OF R]
  show "sqrt (0.25 * (1 + a00 - a11 - a22)) * sqrt (0.25 * (1 + a00 - a11 - a22)) = (1 + a00 - a11 - a22) / 4"
    by (rule pivot_square [OF P])
  show "(a01 + a10) * (0.25 / sqrt (0.25 * (1 + a00 - a11 - a22))) * ((a01 + a10) * (0.25 / sqrt (0.25 * (1 + a00 - a11 - a22)))) = (1 - a00 + a11 - a22) / 4"
    by (rule pivot_others [OF P id(1)])
  show "(a02 + a20) * (0.25 / sqrt (0.25 * (1 + a00 - a11 - a22))) * ((a02 + a20) * (0.25 / sqrt (0.25 * (1 + a00 - a11 - a22)))) = (1 - a00 - a11 + a22) / 4"
    by (rule pivot_others [OF P id(4)])
  show "(a21 - a12) * (0.25 / sqrt (0.25 * (1 + a00 - a11 - a22))) * ((a21 - a12) * (0.25 / sqrt (0.25 * (1 + a00 - a11 - a22)))) = (1 + a00 + a11 + a22) / 4"
    by (rule pivot_others [OF P id(6)])
  show "sqrt (0.25 * (1 + a00 - a11 - a22)) * ((a01 + a10) * (0.25 / sqrt (0.25 * (1 + a00 - a11 - a22)))) = (a01 + a10) / 4"
    by (rule pivot_times(1) [OF P])
  show "sqrt (0.25 * (1 + a00 - a11 - a22)) * ((a02 + a20) * (0.25 / sqrt (0.25 * (1 + a00 - a11 - a22)))) = (a02 + a20) / 4"
    by (rule pivot_times(1) [OF P])
  show "(a01 + a10) * (0.25 / sqrt (0.25 * (1 + a00 - a11 - a22))) * ((a02 + a20) * (0.25 / sqrt (0.25 * (1 + a00 - a11 - a22)))) = (a12 + a21) / 4"
    by (rule pivot_others [OF P id(2)])
  show "(a21 - a12) * (0.25 / sqrt (0.25 * (1 + a00 - a11 - a22))) * sqrt (0.25 * (1 + a00 - a11 - a22)) = (a21 - a12) / 4"
    by (rule pivot_times(2) [OF P])
  show "(a21 - a12) * (0.25 / sqrt (0.25 * (1 + a00 - a11 - a22))) * ((a01 + a10) * (0.25 / sqrt (0.25 * (1 + a00 - a11 - a22)))) = (a02 - a20) / 4"
    by (rule pivot_others' [OF P id(3)])
  show "(a21 - a12) * (0.25 / sqrt (0.25 * (1 + a00 - a11 - a22))) * ((a02 + a20) * (0.25 / sqrt (0.25 * (1 + a00 - a11 - a22)))) = (a10 - a01) / 4"
    by (rule pivot_others' [OF P id(5)])
qed

lemma Get3x3_pivot_y:
  fixes a00 a01 a02 a10 a11 a12 a20 a21 a22 :: real
  assumes R: "pure_rotation (mat3 (vec3 a00 a01 a02) (vec3 a10 a11 a12) (vec3 a20 a21 a22))"
    and P: "0 < 1 - a00 + a11 - a22"
  shows "Get3x3 (Quaternion ((a01 + a10) * (0.25 / sqrt (0.25 * (1 - a00 + a11 - a22))))
                            (sqrt (0.25 * (1 - a00 + a11 - a22)))
                            ((a12 + a21) * (0.25 / sqrt (0.25 * (1 - a00 + a11 - a22))))
                            ((a02 - a20) * (0.25 / sqrt (0.25 * (1 - a00 + a11 - a22))))) =
         mat3 (vec3 a00 a10 a20) (vec3 a01 a11 a21) (vec3 a02 a12 a22)"
proof (rule Get3x3_of_products)
  note id = pivot_y_identities [OF R]
  show "(a01 + a10) * (0.25 / sqrt (0.25 * (1 - a00 + a11 - a22))) * ((a01 + a10) * (0.25 / sqrt (0.25 * (1 - a00 + a11 - a22)))) = (1 + a00 - a11 - a22) / 4"
    by (rule pivot_others [OF P id(1)])
  show "sqrt (0.25 * (1 - a00 + a11 - a22)) * sqrt (0.25 * (1 - a00 + a11 - a22)) = (1 - a00 + a11 - a22) / 4"
    by (rule pivot_square [OF P])
  show "(a12 + a21) * (0.25 / sqrt (0.25 * (1 - a00 + a11 - a22))) * ((a12 + a21) * (0.25 / sqrt (0.25 * (1 - a00 + a11 - a22)))) = (1 - a00 - a11 + a22) / 4"
    by (rule pivot_others [OF P id(4)])
  show "(a02 - a20) * (0.25 / sqrt (0.25 * (1 - a00 + a11 - a22))) * ((a02 - a20) * (0.25 / sqrt (0.25 * (1 - a00 + a11 - a22)))) = (1 + a00 + a11 + a22) / 4"
    by (rule pivot_others [OF P id(6)])
  show "(a01 + a10) * (0.25 / sqrt (0.25 * (1 - a00 + a11 - a22))) * sqrt (0.25 * (1 - a00 + a11 - a22)) = (a01 + a10) / 4"
    by (rule pivot_times(2) [OF P])
  show "(a01 + a10) * (0.25 / sqrt (0.25 * (1 - a00 + a11 - a22))) * ((a12 + a21) * (0.25 / sqrt (0.25 * (1 - a00 + a11 - a22)))) = (a02 + a20) / 4"
    by (rule pivot_others [OF P id(2)])
  show "sqrt (0.25 * (1 - a00 + a11 - a22)) * ((a12 + a21) * (0.25 / sqrt (0.25 * (1 - a00 + a11 - a22)))) = (a12 + a21) / 4"
    by (rule pivot_times(1) [OF P])
  show "(a02 - a20) * (0.25 / sqrt (0.25 * (1 - a00 + a11 - a22))) * ((a01 + a10) * (0.25 / sqrt (0.25 * (1 - a00 + a11 - a22)))) = (a21 - a12) / 4"
    by (rule pivot_others' [OF P id(3)])
  show "(a02 - a20) * (0.25 / sqrt (0.25 * (1 - a00 + a11 - a22))) * sqrt (0.25 * (1 - a00 + a11 - a22)) = (a02 - a20) / 4"
    by (rule pivot_times(2) [OF P])
  show "(a02 - a20) * (0.25 / sqrt (0.25 * (1 - a00 + a11 - a22))) * ((a12 + a21) * (0.25 / sqrt (0.25 * (1 - a00 + a11 - a22)))) = (a10 - a01) / 4"
    by (rule pivot_others' [OF P id(5)])
qed

lemma Get3x3_pivot_z:
  fixes a00 a01 a02 a10 a11 a12 a20 a21 a22 :: real
  assumes R: "pure_rotation (mat3 (vec3 a00 a01 a02) (vec3 a10 a11 a12) (vec3 a20 a21 a22))"
    and P: "0 < 1 - a00 - a11 + a22"
  shows "Get3x3 (Quaternion ((a02 + a20) * (0.25 / sqrt (0.25 * (1 - a00 - a11 + a22))))
                            ((a12 + a21) * (0.25 / sqrt (0.25 * (1 - a00 - a11 + a22))))
                            (sqrt (0.25 * (1 - a00 - a11 + a22)))
                            ((a10 - a01) * (0.25 / sqrt (0.25 * (1 - a00 - a11 + a22))))) =
         mat3 (vec3 a00 a10 a20) (vec3 a01 a11 a21) (vec3 a02 a12 a22)"
proof (rule Get3x3_of_products)
  note id = pivot_z_identities [OF R]
  show "(a02 + a20) * (0.25 / sqrt (0.25 * (1 - a00 - a11 + a22))) * ((a02 + a20) * (0.25 / sqrt (0.25 * (1 - a00 - a11 + a22)))) = (1 + a00 - a11 - a22) / 4"
    by (rule pivot_others [OF P id(1)])
  show "(a12 + a21) * (0.25 / sqrt (0.25 * (1 - a00 - a11 + a22))) * ((a12 + a21) * (0.25 / sqrt (0.25 * (1 - a00 - a11 + a22)))) = (1 - a00 + a11 - a22) / 4"
    by (rule pivot_others [OF P id(4)])
  show "sqrt (0.25 * (1 - a00 - a11 + a22)) * sqrt (0.25 * (1 - a00 - a11 + a22)) = (1 - a00 - a11 + a22) / 4"
    by (rule pivot_square [OF P])
  show "(a10 - a01) * (0.25 / sqrt (0.25 * (1 - a00 - a11 + a22))) * ((a10 - a01) * (0.25 / sqrt (0.25 * (1 - a00 - a11 + a22)))) = (1 + a00 + a11 + a22) / 4"
    by (rule pivot_others [OF P id(6)])
  show "(a02 + a20) * (0.25 / sqrt (0.25 * (1 - a00 - a11 + a22))) * ((a12 + a21) * (0.25 / sqrt (0.25 * (1 - a00 - a11 + a22)))) = (a01 + a10) / 4"
    by (rule pivot_others [OF P id(2)])
  show "(a02 + a20) * (0.25 / sqrt (0.25 * (1 - a00 - a11 + a22))) * sqrt (0.25 * (1 - a00 - a11 + a22)) = (a02 + a20) / 4"
    by (rule pivot_times(2) [OF P])
  show "(a12 + a21) * (0.25 / sqrt (0.25 * (1 - a00 - a11 + a22))) * sqrt (0.25 * (1 - a00 - a11 + a22)) = (a12 + a21) / 4"
    by (rule pivot_times(2) [OF P])
  show "(a10 - a01) * (0.25 / sqrt (0.25 * (1 - a00 - a11 + a22))) * ((a02 + a20) * (0.25 / sqrt (0.25 * (1 - a00 - a11 + a22)))) = (a21 - a12) / 4"
    by (rule pivot_others' [OF P id(3)])
  show "(a10 - a01) * (0.25 / sqrt (0.25 * (1 - a00 - a11 + a22))) * ((a12 + a21) * (0.25 / sqrt (0.25 * (1 - a00 - a11 + a22)))) = (a02 - a20) / 4"
    by (rule pivot_others' [OF P id(5)])
  show "(a10 - a01) * (0.25 / sqrt (0.25 * (1 - a00 - a11 + a22))) * sqrt (0.25 * (1 - a00 - a11 + a22)) = (a10 - a01) / 4"
    by (rule pivot_times(2) [OF P])
qed

lemma Quaternion_of_mat3_pivot_w:
  fixes a00 a01 a02 a10 a11 a12 a20 a21 a22 :: real
  assumes "0 \<le> a00 + a11 + a22"
  shows "Quaternion_of_mat3 (mat3 (vec3 a00 a01 a02) (vec3 a10 a11 a12) (vec3 a20 a21 a22)) =
         Quaternion ((a21 - a12) * (0.25 / sqrt (0.25 * (1 + a00 + a11 + a22))))
                    ((a02 - a20) * (0.25 / sqrt (0.25 * (1 + a00 + a11 + a22))))
                    ((a10 - a01) * (0.25 / sqrt (0.25 * (1 + a00 + a11 + a22))))
                    (sqrt (0.25 * (1 + a00 + a11 + a22)))"
  using assms
  by (auto simp add: Quaternion_of_mat3_def caseMacro_def X_def Y_def Z_def Let_def algebra_simps
      add_divide_distrib diff_divide_distrib)

lemma Quaternion_of_mat3_pivot_x:
  fixes a00 a01 a02 a10 a11 a12 a20 a21 a22 :: real
  assumes "a00 + a11 + a22 < 0"
    and "a11 \<le> a00"
    and "a22 \<le> a00"
  shows "Quaternion_of_mat3 (mat3 (vec3 a00 a01 a02) (vec3 a10 a11 a12) (vec3 a20 a21 a22)) =
         Quaternion (sqrt (0.25 * (1 + a00 - a11 - a22)))
                    ((a01 + a10) * (0.25 / sqrt (0.25 * (1 + a00 - a11 - a22))))
                    ((a02 + a20) * (0.25 / sqrt (0.25 * (1 + a00 - a11 - a22))))
                    ((a21 - a12) * (0.25 / sqrt (0.25 * (1 + a00 - a11 - a22))))"
  using assms
  by (auto simp add: Quaternion_of_mat3_def caseMacro_def X_def Y_def Z_def Let_def algebra_simps
      add_divide_distrib diff_divide_distrib)

lemma Quaternion_of_mat3_pivot_y:
  fixes a00 a01 a02 a10 a11 a12 a20 a21 a22 :: real
  assumes "a00 + a11 + a22 < 0"
    and "\<not> a11 \<le> a00"
    and "a22 \<le> a11"
  shows "Quaternion_of_mat3 (mat3 (vec3 a00 a01 a02) (vec3 a10 a11 a12) (vec3 a20 a21 a22)) =
         Quaternion ((a01 + a10) * (0.25 / sqrt (0.25 * (1 - a00 + a11 - a22))))
                    (sqrt (0.25 * (1 - a00 + a11 - a22)))
                    ((a12 + a21) * (0.25 / sqrt (0.25 * (1 - a00 + a11 - a22))))
                    ((a02 - a20) * (0.25 / sqrt (0.25 * (1 - a00 + a11 - a22))))"
  using assms
  by (auto simp add: Quaternion_of_mat3_def caseMacro_def X_def Y_def Z_def Let_def algebra_simps
      add_divide_distrib diff_divide_distrib)

lemma Quaternion_of_mat3_pivot_z:
  fixes a00 a01 a02 a10 a11 a12 a20 a21 a22 :: real
  assumes "a00 + a11 + a22 < 0"
    and "(a11 \<le> a00 \<and> \<not> a22 \<le> a00) \<or> (\<not> a11 \<le> a00 \<and> \<not> a22 \<le> a11)"
  shows "Quaternion_of_mat3 (mat3 (vec3 a00 a01 a02) (vec3 a10 a11 a12) (vec3 a20 a21 a22)) =
         Quaternion ((a02 + a20) * (0.25 / sqrt (0.25 * (1 - a00 - a11 + a22))))
                    ((a12 + a21) * (0.25 / sqrt (0.25 * (1 - a00 - a11 + a22))))
                    (sqrt (0.25 * (1 - a00 - a11 + a22)))
                    ((a10 - a01) * (0.25 / sqrt (0.25 * (1 - a00 - a11 + a22))))"
  using assms
  by (auto simp add: Quaternion_of_mat3_def caseMacro_def X_def Y_def Z_def Let_def algebra_simps
      add_divide_distrib diff_divide_distrib)

text \<open>
  For every pure-rotation matrix \<open>R\<close>, the quaternion that \<^verbatim>\<open>Quaternion(mat3)\<close> constructs
  from \<open>R\<close> is turned by \<open>Get3x3\<close> into the transpose of \<open>R\<close>, in the branch \<open>trace \<ge> 0\<close>
  and in each case of the largest-diagonal branch.
\<close>

lemma Get3x3_transposes:
  assumes "pure_rotation R"
  shows "Get3x3 (Quaternion_of_mat3 R) = Transpose3 R"
proof -
  obtain a00 a01 a02 a10 a11 a12 a20 a21 a22
    where R: "R = mat3 (vec3 a00 a01 a02) (vec3 a10 a11 a12) (vec3 a20 a21 a22)"
    by (rule mat3_entries)
  have rot: "pure_rotation (mat3 (vec3 a00 a01 a02) (vec3 a10 a11 a12) (vec3 a20 a21 a22))"
    using assms by (simp only: R)
  consider (w) "0 \<le> a00 + a11 + a22"
    | (x) "a00 + a11 + a22 < 0" "a11 \<le> a00" "a22 \<le> a00"
    | (y) "a00 + a11 + a22 < 0" "\<not> a11 \<le> a00" "a22 \<le> a11"
    | (z) "a00 + a11 + a22 < 0"
        "(a11 \<le> a00 \<and> \<not> a22 \<le> a00) \<or> (\<not> a11 \<le> a00 \<and> \<not> a22 \<le> a11)"
    by linarith
  then have "Get3x3 (Quaternion_of_mat3 (mat3 (vec3 a00 a01 a02) (vec3 a10 a11 a12) (vec3 a20 a21 a22))) = mat3 (vec3 a00 a10 a20) (vec3 a01 a11 a21) (vec3 a02 a12 a22)"
  proof cases
    case w
    then have P: "0 < 1 + a00 + a11 + a22" by simp
    show ?thesis
      by (simp only: Quaternion_of_mat3_pivot_w [OF w] Get3x3_pivot_w [OF rot P])
  next
    case x
    then have P: "0 < 1 + a00 - a11 - a22" by simp
    show ?thesis
      by (simp only: Quaternion_of_mat3_pivot_x [OF x] Get3x3_pivot_x [OF rot P])
  next
    case y
    then have P: "0 < 1 - a00 + a11 - a22" by simp
    show ?thesis
      by (simp only: Quaternion_of_mat3_pivot_y [OF y] Get3x3_pivot_y [OF rot P])
  next
    case z
    then have P: "0 < 1 - a00 - a11 + a22" by linarith
    show ?thesis
      by (simp only: Quaternion_of_mat3_pivot_z [OF z] Get3x3_pivot_z [OF rot P])
  qed
  then show ?thesis
    by (simp only: R Transpose3_eval)
qed

subsection \<open>The round trip through the 4x4 constructor\<close>

lemma mat4_of_mat3_eval:
  "mat4_of_mat3 (mat3 (vec3 a00 a01 a02) (vec3 a10 a11 a12) (vec3 a20 a21 a22)) =
     mat4 (vec4 a00 a01 a02 0) (vec4 a10 a11 a12 0) (vec4 a20 a21 a22 0) (vec4 0 0 0 1)"
  by (simp add: mat4_of_mat3_def Let_def vec4_splat_def upt3 del: mat4_set.simps)

lemma pure_rotation_Transpose3:
  assumes "pure_rotation R"
  shows "pure_rotation (Transpose3 R)"
proof -
  obtain a00 a01 a02 a10 a11 a12 a20 a21 a22
    where R: "R = mat3 (vec3 a00 a01 a02) (vec3 a10 a11 a12) (vec3 a20 a21 a22)"
    by (rule mat3_entries)
  have t: "Transpose3 (Transpose3 R) = R"
    unfolding R by (simp add: Transpose3_eval)
  have d: "det3 (Transpose3 R) = det3 R"
    unfolding R by (simp add: Transpose3_eval det3_eval)
  show ?thesis
    using assms pure_rotation_columns [OF assms]
    by (simp add: pure_rotation_def t d)
qed

lemma Quaternion_of_mat4_rotation:
  assumes "pure_rotation R"
  shows "Quaternion_of_mat4 (mat4_of_mat3 R) = Quaternion_of_mat3 (Transpose3 R)"
proof -
  obtain a00 a01 a02 a10 a11 a12 a20 a21 a22
    where R: "R = mat3 (vec3 a00 a01 a02) (vec3 a10 a11 a12) (vec3 a20 a21 a22)"
    by (rule mat3_entries)
  note c = pure_rotation_cols [OF assms [unfolded R]]
  have l: "length3 (vec3 a00 a10 a20) = 1" "length3 (vec3 a01 a11 a21) = 1"
    "length3 (vec3 a02 a12 a22) = 1"
    by (simp_all add: length3_def dot3_def c)
  show ?thesis
    unfolding R mat4_of_mat3_eval Transpose3_eval
    by (simp add: Quaternion_of_mat4_def Let_def l upt3 del: mat3_set.simps)
qed

text \<open>
  The sibling constructor \<^verbatim>\<open>Quaternion(mat4)\<close> transposes the rotation block before it
  calls \<^verbatim>\<open>Quaternion(mat3)\<close>; with it the round trip through \<open>GetMatrix\<close> reproduces the
  matrix.
\<close>

lemma GetMatrix_Quaternion_of_mat4:
  assumes "pure_rotation R"
  shows "GetMatrix (Quaternion_of_mat4 (mat4_of_mat3 R)) = mat4_of_mat3 R"
proof -
  obtain a00 a01 a02 a10 a11 a12 a20 a21 a22
    where R: "R = mat3 (vec3 a00 a01 a02) (vec3 a10 a11 a12) (vec3 a20 a21 a22)"
    by (rule mat3_entries)
  have t: "Transpose3 (Transpose3 R) = R"
    unfolding R by (simp add: Transpose3_eval)
  have "Get3x3 (Quaternion_of_mat3 (Transpose3 R)) = Transpose3 (Transpose3 R)"
    by (rule Get3x3_transposes [OF pure_rotation_Transpose3 [OF assms]])
  then show ?thesis
    by (simp add: GetMatrix_def Quaternion_of_mat4_rotation [OF assms] t)
qed

text \<open>
  C7 (as the code has it). The round trip through \<^verbatim>\<open>Quaternion(mat3)\<close> and \<open>Get3x3\<close> does not
  reproduce a pure rotation; it transposes it. In the branch \<open>trace \<ge> 0\<close>: the quarter turn
  about the z axis, with rows \<open>(0,-1,0)\<close>, \<open>(1,0,0)\<close>, \<open>(0,0,1)\<close> and trace 1, comes back with
  \<open>1\<close> in row 0, column 1, where the matrix has \<open>-1\<close>. In the largest-diagonal branch: the
  rotation about the z axis with cosine \<open>-119/169\<close> and sine \<open>120/169\<close> (trace \<open>-69/169\<close>)
  comes back with \<open>120/169\<close> in row 0, column 1, where the matrix has \<open>-120/169\<close>. Handed
  to \<^verbatim>\<open>Quaternion(mat4)\<close> as a 4x4 matrix, the quarter turn comes back from \<open>GetMatrix\<close> as
  it was.
\<close>

theorem Get3x3_Quaternion_of_mat3_not_identity:
  "pure_rotation (mat3 (vec3 0 (- 1) 0) (vec3 1 0 0) (vec3 0 0 1))
   \<and> Get3x3 (Quaternion_of_mat3 (mat3 (vec3 0 (- 1) 0) (vec3 1 0 0) (vec3 0 0 1))) =
       mat3 (vec3 0 1 0) (vec3 (- 1) 0 0) (vec3 0 0 1)
   \<and> \<bar>mat3_at (Get3x3 (Quaternion_of_mat3 (mat3 (vec3 0 (- 1) 0) (vec3 1 0 0) (vec3 0 0 1)))) 0 1
        - mat3_at (mat3 (vec3 0 (- 1) 0) (vec3 1 0 0) (vec3 0 0 1)) 0 1\<bar> = 2
   \<and> pure_rotation (mat3 (vec3 (- 119 / 169) (- 120 / 169) 0) (vec3 (120 / 169) (- 119 / 169) 0)
         (vec3 0 0 1))
   \<and> Get3x3 (Quaternion_of_mat3
         (mat3 (vec3 (- 119 / 169) (- 120 / 169) 0) (vec3 (120 / 169) (- 119 / 169) 0) (vec3 0 0 1))) =
       mat3 (vec3 (- 119 / 169) (120 / 169) 0) (vec3 (- 120 / 169) (- 119 / 169) 0) (vec3 0 0 1)
   \<and> GetMatrix (Quaternion_of_mat4 (mat4_of_mat3 (mat3 (vec3 0 (- 1) 0) (vec3 1 0 0) (vec3 0 0 1)))) =
       mat4_of_mat3 (mat3 (vec3 0 (- 1) 0) (vec3 1 0 0) (vec3 0 0 1))"
proof -
  have p1: "pure_rotation (mat3 (vec3 0 (- 1) 0) (vec3 1 0 0) (vec3 0 0 1))"
    by (simp add: pure_rotation_def Transpose3_eval mat3_mul_eval det3_eval mat3_diag_def)
  have p2: "pure_rotation (mat3 (vec3 (- 119 / 169) (- 120 / 169) 0) (vec3 (120 / 169) (- 119 / 169) 0)
         (vec3 0 0 1))"
    by (simp add: pure_rotation_def Transpose3_eval mat3_mul_eval det3_eval mat3_diag_def)
  show ?thesis
    using p1 p2 Get3x3_transposes [OF p1] Get3x3_transposes [OF p2]
      GetMatrix_Quaternion_of_mat4 [OF p1]
    by (simp add: Transpose3_eval)
qed

subsection \<open>Slerp at its end points\<close>
















end
